theory Spec2Isabelle
  imports Main "HOL-Library.Word" "HOL-Library.Sublist"
begin

section \<open>NUMA-aware CPU hint handlers of the dynamic policy\<close>

text \<open>
  A shallow embedding of \<^verbatim>\<open>pkg/agent/qrm-plugins/cpu/dynamicpolicy/policy_hint_handlers.go\<close>.
  Go values are modelled as follows.
  \<^item> Go \<^verbatim>\<open>int\<close> is \<^typ>\<open>int\<close>; no function of the file does arithmetic on it except
    the \<^verbatim>\<open>+= 1\<close> of the match counters, which cannot reach the word size.
    \<^verbatim>\<open>uint64\<close> is \<^typ>\<open>64 word\<close>.
  \<^item> A pointer is an \<^typ>\<open>'a option\<close>, \<^term>\<open>None\<close> being \<^verbatim>\<open>nil\<close>.
  \<^item> A \<^verbatim>\<open>map[string]string\<close> that is only indexed is a \<^typ>\<open>string \<rightharpoonup> string\<close>; a map the
    code ranges over is an association list whose order is the order in which the range
    statement visits the entries.
  \<^item> A returned \<^verbatim>\<open>error\<close> is the left injection of a sum; a run-time panic
    (a method call or field access through \<^verbatim>\<open>nil\<close>) is the error \<open>Panic\<close>.
  \<^item> Functions, constants and types of other packages that the file calls but that are not
    part of it are fields of the records \<open>KatalystMachineInfo\<close>, \<open>PolicyState\<close>,
    \<open>Collaborators\<close> and \<open>apiconsts\<close>, so every theorem holds for each of their
    possible behaviours.
\<close>

subsection \<open>Errors\<close>

datatype error =
    GotNilRequest
  | DedicatedGotNilReq
  | PackGotNilRequest
  | GetReqQuantityFailed error
  | GenerateMachineStateFailed error
  | CalculateHintsFailed error
  | NotSupportWithoutNUMABinding
  | GetNUMANodesCountFailed error
  | NotExclusiveLargerThanOneNUMA
  | NUMAsPerSocketFailed error
  | SocketNotFound int
  | UnmarshalAffinityFailed
  | ExclusiveWithAffinity
  | External string
  | Panic

subsection \<open>Data\<close>

type_synonym CPUSet = "int set"

record Selector =
  MatchLabels :: "(string \<times> string) list"
  Zone :: string

text \<open>
  \<^verbatim>\<open>util.MicroTopologyPodAffnity\<close>: two pointers, each to a struct whose field
  \<^verbatim>\<open>Required\<close> is a slice of selectors (a \<^verbatim>\<open>nil\<close> slice is the empty list).
\<close>

record MicroTopologyPodAffnity =
  Affinity :: "Selector list option"
  AntiAffinity :: "Selector list option"

record AllocationInfo =
  Labels :: "string \<rightharpoonup> string"
  Annotations :: "string \<rightharpoonup> string"

type_synonym ContainerEntries = "(string \<times> AllocationInfo option) list"

type_synonym PodEntries = "(string \<times> ContainerEntries) list"

record NUMANodeState =
  TotalCPUSet :: CPUSet
  AllocatedCPUSet :: CPUSet
  PodEntries :: PodEntries

type_synonym NUMANodeMap = "(int \<times> NUMANodeState option) list"

record TopologyHint =
  Nodes :: "64 word list"
  Preferred :: bool

record ListOfTopologyHints =
  Hints :: "TopologyHint option list"

type_synonym HintsMap = "string \<rightharpoonup> ListOfTopologyHints option"

datatype ContainerType = INIT | MAIN | SIDECAR | EPHEMERAL

record ResourceRequest =
  PodUid :: string
  PodNamespace :: string
  PodName :: string
  ContainerName :: string
  ContainerType :: ContainerType
  Labels :: "string \<rightharpoonup> string"
  Annotations :: "string \<rightharpoonup> string"

record ResourceHintsResponse =
  Request :: ResourceRequest
  ResourceName :: string
  ResourceHints :: HintsMap

record numaInfo =
  labels :: "string \<rightharpoonup> string list"
  socketID :: int
  numaID :: int
  AntiAffinityRequiredSelectors :: "Selector list"

record podInfo =
  labels :: "string \<rightharpoonup> string"
  AffinityRequiredSelectors :: "Selector list"
  AntiAffinityRequiredSelectors :: "Selector list"

type_synonym TopologyAffinityCount = "int \<rightharpoonup> int"

record preFilterState =
  existingAntiAffinityCounts :: TopologyAffinityCount
  affinityCounts :: TopologyAffinityCount
  antiAffinityCounts :: TopologyAffinityCount
  podAffinityInfo :: podInfo
  numaAffinityInfoList :: "numaInfo list"

subsection \<open>Collaborators outside the file\<close>

text \<open>
  \<open>p.machineInfo\<close>: the topology and the lookups on it. \<open>SocketsInNUMANodes\<close> and
  \<open>NUMANodesInSockets\<close> give the slice that \<^verbatim>\<open>ToSliceInt\<close> makes of the CPU set
  they return; \<open>GetNUMANodesCountToFitCPUReq\<close> gives the first of the function's two
  counts, the only one the file reads.
\<close>

record KatalystMachineInfo =
  NumNUMANodes :: int
  SocketsInNUMANodes :: "int \<Rightarrow> int list"
  NUMANodesInSockets :: "int \<Rightarrow> int list"
  NUMAsPerSocket :: "error + int"
  GetNUMANodesCountToFitCPUReq :: "int \<Rightarrow> error + int"
  CheckNUMACrossSockets :: "int list \<Rightarrow> error + bool"

text \<open>\<open>p.state\<close>: the accessors of the allocation state.\<close>

record PolicyState =
  GetMachineState :: NUMANodeMap
  GetAllocationInfo :: "string \<Rightarrow> string \<Rightarrow> AllocationInfo option"
  GetPodEntries :: PodEntries

text \<open>
  Package-level functions of \<open>util\<close>, \<open>cpuutil\<close>, \<open>qosutil\<close> and \<open>state\<close>, and
  \<open>generateMachineStateFromPodEntries\<close> of the package itself, with the topology argument
  left implicit. A \<^verbatim>\<open>nil\<close> map of hints is \<^term>\<open>None\<close>; \<open>UnmarshalAffinity\<close> gives an
  affinity that is not \<^verbatim>\<open>nil\<close> whenever it gives no error; \<open>GetFilteredNUMASet\<close> is the
  method of the machine state applied to \<^verbatim>\<open>state.CheckNUMABinding\<close>.
\<close>

record Collaborators =
  GetQuantityFromResourceReq :: "ResourceRequest \<Rightarrow> error + int"
  RegenerateHints :: "AllocationInfo \<Rightarrow> int \<Rightarrow> HintsMap option"
  generateMachineStateFromPodEntries :: "PodEntries \<Rightarrow> error + NUMANodeMap"
  GetFilteredNUMASet :: "NUMANodeMap \<Rightarrow> CPUSet"
  GetHintsFromExtraStateFile :: "string \<Rightarrow> string \<Rightarrow> string \<Rightarrow> CPUSet \<Rightarrow> HintsMap option \<times> error option"
  UnmarshalAffinity :: "(string \<rightharpoonup> string) \<Rightarrow> error + MicroTopologyPodAffnity"
  PackResourceHintsResponse ::
    "ResourceRequest option \<Rightarrow> string \<Rightarrow> HintsMap \<Rightarrow> ResourceHintsResponse option \<times> error option"
  AnnotationsIndicateNUMABinding :: "(string \<rightharpoonup> string) \<Rightarrow> bool"
  AnnotationsIndicateNUMAExclusive :: "(string \<rightharpoonup> string) \<Rightarrow> bool"

text \<open>The string constants of package \<open>apiconsts\<close> that the file names.\<close>

record apiconsts =
  PodAnnotationMemoryEnhancementNumaBinding :: string
  PodAnnotationMemoryEnhancementNumaBindingEnable :: string
  PodAnnotationMemoryEnhancementNumaExclusive :: string
  PodAnnotationMemoryEnhancementNumaExclusiveEnable :: string
  PodAnnotationMicroTopologyInterPodAntiAffinity :: string
  PodAnnotationMicroTopologyAffinitySocket :: string

record DynamicPolicy =
  reservedCPUs :: CPUSet
  extraStateFileAbsPath :: string
  machineInfo :: KatalystMachineInfo
  state :: PolicyState
  collaborators :: Collaborators
  apiConsts :: apiconsts

subsection \<open>Go map indexing\<close>

text \<open>Indexing a Go map with a missing key gives the zero value of the element type.\<close>

definition indexString :: "(string \<rightharpoonup> string) \<Rightarrow> string \<Rightarrow> string" where
  "indexString m k = (case m k of None \<Rightarrow> [] | Some v \<Rightarrow> v)"

definition indexCount :: "TopologyAffinityCount \<Rightarrow> int \<Rightarrow> int" where
  "indexCount m k = (case m k of None \<Rightarrow> 0 | Some c \<Rightarrow> c)"

definition indexValues :: "(string \<rightharpoonup> string list) \<Rightarrow> string \<Rightarrow> string list" where
  "indexValues m k = (case m k of None \<Rightarrow> [] | Some vs \<Rightarrow> vs)"

definition indexNUMA :: "NUMANodeMap \<Rightarrow> int \<Rightarrow> NUMANodeState option" where
  "indexNUMA machineState nodeID = (case map_of machineState nodeID of None \<Rightarrow> None | Some st \<Rightarrow> st)"

definition indexHints :: "HintsMap \<Rightarrow> string \<Rightarrow> ListOfTopologyHints option" where
  "indexHints hints k = (case hints k of None \<Rightarrow> None | Some l \<Rightarrow> l)"

definition ResourceCPU :: string where
  "ResourceCPU = ''cpu''"

subsection \<open>Bit masks\<close>

text \<open>
  Modelled from the spec: package \<open>bitmask\<close> of the Kubernetes topology manager is not
  in the sources. A mask is a bit-indexed membership set over NUMA-node IDs, held here as
  the ascending list of its bits, which is what \<^verbatim>\<open>GetBits\<close> returns; \<^verbatim>\<open>Count\<close> is
  its length. A mask has 64 bits: \<^verbatim>\<open>NewBitMask\<close> gives \<^verbatim>\<open>nil\<close> for a bit outside
  0..63, on which the callback of \<open>calculateHints\<close> panics.
\<close>

type_synonym BitMask = "int list"

definition NewBitMask :: "int list \<Rightarrow> BitMask option" where
  "NewBitMask bits =
     (if list_all (\<lambda>i. 0 \<le> i \<and> i < 64) bits then Some (sort (remdups bits)) else None)"

text \<open>
  \<open>combinations n bits\<close> lists the sub-lists of \<open>bits\<close> with \<open>n\<close> elements, those that
  start with the first bit first: the order in which the enumeration of all masks of one
  size builds them.
\<close>

fun combinations :: "nat \<Rightarrow> 'a list \<Rightarrow> 'a list list" where
  "combinations 0 bits = [[]]"
| "combinations (Suc n) [] = []"
| "combinations (Suc n) (b # bits) =
     map ((#) b) (combinations n bits) @ combinations (Suc n) bits"

fun iterateCalls :: "(BitMask option \<Rightarrow> 's \<Rightarrow> error + 's) \<Rightarrow> int list list \<Rightarrow> 's \<Rightarrow> error + 's" where
  "iterateCalls callback [] s = Inr s"
| "iterateCalls callback (accum # rest) s =
     (case callback (NewBitMask accum) s of
        Inl e \<Rightarrow> Inl e
      | Inr s' \<Rightarrow> iterateCalls callback rest s')"

text \<open>
  Modelled from the spec: \<^verbatim>\<open>bitmask.IterateBitMasks\<close> enumerates every non-empty subset
  of the bits, by increasing size, and calls the callback on the mask of each. The
  callback's effect on the variables it captures is the state \<open>s\<close> threaded through.
\<close>

definition IterateBitMasks :: "int list \<Rightarrow> (BitMask option \<Rightarrow> 's \<Rightarrow> error + 's) \<Rightarrow> 's \<Rightarrow> error + 's" where
  "IterateBitMasks bits callback s =
     iterateCalls callback (concat (map (\<lambda>n. combinations n bits) [1..<Suc (length bits)])) s"

text \<open>
  Modelled from the spec: \<^verbatim>\<open>machine.MaskToUInt64Array\<close> is not in the sources; it gives
  the node IDs of the mask as unsigned 64-bit integers.
\<close>

definition MaskToUInt64Array :: "BitMask \<Rightarrow> 64 word list" where
  "MaskToUInt64Array maskBits = map word_of_int maskBits"

subsection \<open>calculateHints\<close>

text \<open>
  Modelled from the spec: \<^verbatim>\<open>GetAvailableCPUSet\<close> of package \<open>state\<close> is not in the
  sources; the available CPUs of a node are its total minus the allocated minus the
  globally reserved ones.
\<close>

definition GetAvailableCPUSet :: "NUMANodeState \<Rightarrow> CPUSet \<Rightarrow> CPUSet" where
  "GetAvailableCPUSet ns reserved = TotalCPUSet ns - AllocatedCPUSet ns - reserved"

text \<open>
  The loop over the bits of a mask (lines 229-241). \<^term>\<open>None\<close> is the \<^verbatim>\<open>return\<close> out
  of the callback; otherwise the union accumulated in \<open>allAvailableCPUsInMask\<close>.
\<close>

fun availableCPUsInMask ::
  "DynamicPolicy \<Rightarrow> NUMANodeMap \<Rightarrow> (string \<rightharpoonup> string) \<Rightarrow> int list \<Rightarrow> CPUSet \<Rightarrow> CPUSet option" where
  "availableCPUsInMask p machineState reqAnnotations [] allAvailableCPUsInMask =
     Some allAvailableCPUsInMask"
| "availableCPUsInMask p machineState reqAnnotations (nodeID # maskBits) allAvailableCPUsInMask =
     (case indexNUMA machineState nodeID of
        None \<Rightarrow> None
      | Some ns \<Rightarrow>
          if AnnotationsIndicateNUMAExclusive (collaborators p) reqAnnotations
             \<and> int (card (AllocatedCPUSet ns)) > 0
          then None
          else availableCPUsInMask p machineState reqAnnotations maskBits
                 (allAvailableCPUsInMask \<union> GetAvailableCPUSet ns (reservedCPUs p)))"

text \<open>
  The callback handed to \<open>IterateBitMasks\<close> (lines 214-263). Its state is the slice
  \<open>hints[cpu].Hints\<close>; every \<^verbatim>\<open>return\<close> leaves it unchanged. A \<^verbatim>\<open>nil\<close> mask panics
  at \<^verbatim>\<open>mask.Count()\<close>.
\<close>

definition calculateHints_callback ::
  "DynamicPolicy \<Rightarrow> int \<Rightarrow> NUMANodeMap \<Rightarrow> (string \<rightharpoonup> string) \<Rightarrow> int \<Rightarrow> int
     \<Rightarrow> BitMask option \<Rightarrow> TopologyHint option list \<Rightarrow> error + TopologyHint option list" where
  "calculateHints_callback p reqInt machineState reqAnnotations minNUMAsCountNeeded numaPerSocket bitMask hints =
     (case bitMask of
        None \<Rightarrow> Inl Panic
      | Some maskBits \<Rightarrow>
          let maskCount = int (length maskBits) in
          if maskCount < minNUMAsCountNeeded then Inr hints
          else if AnnotationsIndicateNUMABinding (collaborators p) reqAnnotations
                  \<and> \<not> AnnotationsIndicateNUMAExclusive (collaborators p) reqAnnotations
                  \<and> maskCount > 1
          then Inr hints
          else
            let numaCountNeeded = int (length maskBits) in
            (case availableCPUsInMask p machineState reqAnnotations maskBits {} of
               None \<Rightarrow> Inr hints
             | Some allAvailableCPUsInMask \<Rightarrow>
                 if int (card allAvailableCPUsInMask) < reqInt then Inr hints
                 else
                   (case CheckNUMACrossSockets (machineInfo p) maskBits of
                      Inl err \<Rightarrow> Inr hints
                    | Inr crossSockets \<Rightarrow>
                        if numaCountNeeded \<le> numaPerSocket \<and> crossSockets then Inr hints
                        else Inr (hints @
                          [Some \<lparr>Nodes = MaskToUInt64Array maskBits,
                                 Preferred = (int (length maskBits) = minNUMAsCountNeeded)\<rparr>]))))"

text \<open>The keys of the machine state, sorted (lines 184-188).\<close>

definition numaNodes :: "NUMANodeMap \<Rightarrow> int list" where
  "numaNodes machineState = sort (remdups (map fst machineState))"

definition calculateHints ::
  "DynamicPolicy \<Rightarrow> int \<Rightarrow> NUMANodeMap \<Rightarrow> (string \<rightharpoonup> string) \<Rightarrow> error + HintsMap" where
  "calculateHints p reqInt machineState reqAnnotations =
     (case GetNUMANodesCountToFitCPUReq (machineInfo p) reqInt of
        Inl err \<Rightarrow> Inl (GetNUMANodesCountFailed err)
      | Inr minNUMAsCountNeeded \<Rightarrow>
          if AnnotationsIndicateNUMABinding (collaborators p) reqAnnotations
             \<and> \<not> AnnotationsIndicateNUMAExclusive (collaborators p) reqAnnotations
             \<and> minNUMAsCountNeeded > 1
          then Inl NotExclusiveLargerThanOneNUMA
          else
            (case NUMAsPerSocket (machineInfo p) of
               Inl err \<Rightarrow> Inl (NUMAsPerSocketFailed err)
             | Inr numaPerSocket \<Rightarrow>
                 (case IterateBitMasks (numaNodes machineState)
                         (calculateHints_callback p reqInt machineState reqAnnotations
                            minNUMAsCountNeeded numaPerSocket) [] of
                    Inl e \<Rightarrow> Inl e
                  | Inr hints \<Rightarrow> Inr [ResourceCPU \<mapsto> Some \<lparr>Hints = hints\<rparr>])))"

text \<open>
  The hints the callback appends for one mask, and the masks in the order of the
  enumeration: the two parts into which a run of \<open>IterateBitMasks\<close> decomposes.
\<close>

definition maskHints ::
  "DynamicPolicy \<Rightarrow> int \<Rightarrow> NUMANodeMap \<Rightarrow> (string \<rightharpoonup> string) \<Rightarrow> int \<Rightarrow> int
     \<Rightarrow> BitMask \<Rightarrow> TopologyHint option list" where
  "maskHints p reqInt machineState reqAnnotations minNUMAsCountNeeded numaPerSocket maskBits =
     (case calculateHints_callback p reqInt machineState reqAnnotations
             minNUMAsCountNeeded numaPerSocket (Some maskBits) [] of
        Inl e \<Rightarrow> []
      | Inr hs \<Rightarrow> hs)"

definition allMasks :: "int list \<Rightarrow> int list list" where
  "allMasks bits = concat (map (\<lambda>n. combinations n bits) [1..<Suc (length bits)])"

text \<open>
  The union of the available CPUs of the nodes of a mask, as the spec words it; a node
  without state contributes nothing.
\<close>

definition availableUnion :: "DynamicPolicy \<Rightarrow> NUMANodeMap \<Rightarrow> int list \<Rightarrow> CPUSet" where
  "availableUnion p machineState maskBits =
     (\<Union>nodeID \<in> set maskBits.
        case indexNUMA machineState nodeID of
          None \<Rightarrow> {}
        | Some ns \<Rightarrow> GetAvailableCPUSet ns (reservedCPUs p))"

subsection \<open>The affinity info collector\<close>

text \<open>
  Modelled from the spec: \<^verbatim>\<open>util.MergeNumaInfoMap\<close> is not in the sources; it merges the
  labels of an entry into the aggregated labels, label key to the distinct values seen.
\<close>

definition MergeNumaInfoMap ::
  "(string \<rightharpoonup> string) \<Rightarrow> (string \<rightharpoonup> string list) \<Rightarrow> (string \<rightharpoonup> string list)" where
  "MergeNumaInfoMap podLabels numaLabels =
     (\<lambda>k. case podLabels k of
            None \<Rightarrow> numaLabels k
          | Some v \<Rightarrow>
              Some (let vs = indexValues numaLabels k in if v \<in> set vs then vs else vs @ [v]))"

text \<open>
  The two nested loops over \<open>numaState.PodEntries\<close> (lines 284-299): the inner loop ends
  with \<^verbatim>\<open>break\<close>, so of each pod only the entry visited first is read. A \<^verbatim>\<open>nil\<close>
  entry panics at \<^verbatim>\<open>allocationInfo.Labels\<close>, a \<^verbatim>\<open>nil\<close> \<open>AntiAffinity\<close> at
  \<^verbatim>\<open>podAffinity.AntiAffinity.Required\<close>.
\<close>

fun collectPodEntries :: "DynamicPolicy \<Rightarrow> PodEntries \<Rightarrow> numaInfo \<Rightarrow> error + numaInfo" where
  "collectPodEntries p [] numaNodeInfo = Inr numaNodeInfo"
| "collectPodEntries p ((podUID, containerEntries) # rest) numaNodeInfo =
     (case containerEntries of
        [] \<Rightarrow> collectPodEntries p rest numaNodeInfo
      | (containerName, allocationInfo) # others \<Rightarrow>
          (case allocationInfo of
             None \<Rightarrow> Inl Panic
           | Some ai \<Rightarrow>
               let merged = numaNodeInfo\<lparr>numaInfo.labels :=
                       MergeNumaInfoMap (AllocationInfo.Labels ai) (numaInfo.labels numaNodeInfo)\<rparr> in
               if indexString (AllocationInfo.Annotations ai)
                    (PodAnnotationMicroTopologyInterPodAntiAffinity (apiConsts p)) \<noteq> []
               then
                 (case UnmarshalAffinity (collaborators p) (AllocationInfo.Annotations ai) of
                    Inl err \<Rightarrow> Inl UnmarshalAffinityFailed
                  | Inr podAffinity \<Rightarrow>
                      (case AntiAffinity podAffinity of
                         None \<Rightarrow> Inl Panic
                       | Some required \<Rightarrow>
                           collectPodEntries p rest
                             (merged\<lparr>numaInfo.AntiAffinityRequiredSelectors :=
                                numaInfo.AntiAffinityRequiredSelectors merged @ required\<rparr>)))
               else collectPodEntries p rest merged))"

text \<open>
  The loop over the node indices (lines 273-302). A node without state panics at
  \<^verbatim>\<open>numaState.PodEntries\<close>.
\<close>

fun getNumaNodesAffinityInfo_loop ::
  "DynamicPolicy \<Rightarrow> int list \<Rightarrow> numaInfo list \<Rightarrow> error + numaInfo list" where
  "getNumaNodesAffinityInfo_loop p [] numaNodesInfo = Inr numaNodesInfo"
| "getNumaNodesAffinityInfo_loop p (i # rest) numaNodesInfo =
     (case SocketsInNUMANodes (machineInfo p) i of
        [] \<Rightarrow> Inl (SocketNotFound i)
      | socket # sockets \<Rightarrow>
          (case indexNUMA (GetMachineState (state p)) i of
             None \<Rightarrow> Inl Panic
           | Some numaState \<Rightarrow>
               (case collectPodEntries p (PodEntries numaState)
                       \<lparr>numaInfo.labels = Map.empty, socketID = socket, numaID = i,
                        numaInfo.AntiAffinityRequiredSelectors = []\<rparr> of
                  Inl e \<Rightarrow> Inl e
                | Inr numaNodeInfo \<Rightarrow>
                    getNumaNodesAffinityInfo_loop p rest (numaNodesInfo @ [numaNodeInfo]))))"

definition getNumaNodesAffinityInfo :: "DynamicPolicy \<Rightarrow> error + numaInfo list" where
  "getNumaNodesAffinityInfo p =
     getNumaNodesAffinityInfo_loop p [0..NumNUMANodes (machineInfo p) - 1] []"

definition requiredPodAffinityInfo :: "MicroTopologyPodAffnity \<Rightarrow> ResourceRequest \<Rightarrow> podInfo" where
  "requiredPodAffinityInfo podAffinity req =
     \<lparr>podInfo.labels = ResourceRequest.Labels req,
      AffinityRequiredSelectors = (case Affinity podAffinity of None \<Rightarrow> [] | Some required \<Rightarrow> required),
      podInfo.AntiAffinityRequiredSelectors =
        (case AntiAffinity podAffinity of None \<Rightarrow> [] | Some required \<Rightarrow> required)\<rparr>"

text \<open>
  What the collector reads of the entries of one node: of every pod the entry that the
  inner loop visits first, its labels, and the anti-affinity selectors its annotations
  parse to. \<open>allEntries\<close> lists every entry of the node.
\<close>

definition firstEntries :: "PodEntries \<Rightarrow> AllocationInfo option list" where
  "firstEntries podEntries =
     concat (map (\<lambda>(podUID, containerEntries).
                    case containerEntries of
                      [] \<Rightarrow> []
                    | (containerName, allocationInfo) # others \<Rightarrow> [allocationInfo])
                 podEntries)"

definition allEntries :: "PodEntries \<Rightarrow> AllocationInfo option list" where
  "allEntries podEntries =
     concat (map (\<lambda>(podUID, containerEntries). map snd containerEntries) podEntries)"

definition mergeEntryLabels ::
  "AllocationInfo option \<Rightarrow> (string \<rightharpoonup> string list) \<Rightarrow> (string \<rightharpoonup> string list)" where
  "mergeEntryLabels entry numaLabels =
     (case entry of
        None \<Rightarrow> numaLabels
      | Some ai \<Rightarrow> MergeNumaInfoMap (AllocationInfo.Labels ai) numaLabels)"

definition entrySelectors :: "DynamicPolicy \<Rightarrow> AllocationInfo option \<Rightarrow> Selector list" where
  "entrySelectors p entry =
     (case entry of
        None \<Rightarrow> []
      | Some ai \<Rightarrow>
          if indexString (AllocationInfo.Annotations ai)
               (PodAnnotationMicroTopologyInterPodAntiAffinity (apiConsts p)) \<noteq> []
          then (case UnmarshalAffinity (collaborators p) (AllocationInfo.Annotations ai) of
                  Inl err \<Rightarrow> []
                | Inr podAffinity \<Rightarrow>
                    (case AntiAffinity podAffinity of None \<Rightarrow> [] | Some required \<Rightarrow> required))
          else [])"

text \<open>
  An entry the collector gets past: not \<^verbatim>\<open>nil\<close> and, when it carries the anti-affinity
  annotation, with annotations that parse to an affinity with an anti-affinity part.
\<close>

definition entryReadable :: "DynamicPolicy \<Rightarrow> AllocationInfo option \<Rightarrow> bool" where
  "entryReadable p entry =
     (case entry of
        None \<Rightarrow> False
      | Some ai \<Rightarrow>
          if indexString (AllocationInfo.Annotations ai)
               (PodAnnotationMicroTopologyInterPodAntiAffinity (apiConsts p)) \<noteq> []
          then (case UnmarshalAffinity (collaborators p) (AllocationInfo.Annotations ai) of
                  Inl err \<Rightarrow> False
                | Inr podAffinity \<Rightarrow> AntiAffinity podAffinity \<noteq> None)
          else True)"

text \<open>
  An entry on which the collector does not panic: not \<^verbatim>\<open>nil\<close> and, when it carries the
  anti-affinity annotation and its annotations parse, with an anti-affinity part.
\<close>

definition entryNotNil :: "DynamicPolicy \<Rightarrow> AllocationInfo option \<Rightarrow> bool" where
  "entryNotNil p entry =
     (case entry of
        None \<Rightarrow> False
      | Some ai \<Rightarrow>
          if indexString (AllocationInfo.Annotations ai)
               (PodAnnotationMicroTopologyInterPodAntiAffinity (apiConsts p)) \<noteq> []
          then (case UnmarshalAffinity (collaborators p) (AllocationInfo.Annotations ai) of
                  Inl err \<Rightarrow> True
                | Inr podAffinity \<Rightarrow> AntiAffinity podAffinity \<noteq> None)
          else True)"

text \<open>
  No \<^verbatim>\<open>nil\<close> where the collector dereferences: every node index below \<open>NumNUMANodes\<close>
  that passes the socket check has state, and of every pod on it the entry visited first
  passes \<open>entryNotNil\<close>.
\<close>

definition visitsNoNil :: "DynamicPolicy \<Rightarrow> bool" where
  "visitsNoNil p =
     list_all (\<lambda>i. case SocketsInNUMANodes (machineInfo p) i of
                     [] \<Rightarrow> True
                   | socket # sockets \<Rightarrow>
                       (case indexNUMA (GetMachineState (state p)) i of
                          None \<Rightarrow> False
                        | Some numaState \<Rightarrow>
                            list_all (entryNotNil p) (firstEntries (PodEntries numaState))))
              [0..NumNUMANodes (machineInfo p) - 1]"

subsection \<open>The affinity counter\<close>

text \<open>\<^verbatim>\<open>topologyMap[n] += 1\<close>.\<close>

definition increment :: "TopologyAffinityCount \<Rightarrow> int \<Rightarrow> TopologyAffinityCount" where
  "increment topologyMap n = topologyMap(n \<mapsto> indexCount topologyMap n + 1)"

text \<open>The body shared by the two match functions (lines 315-323 and 339-347).\<close>

definition countMatch ::
  "DynamicPolicy \<Rightarrow> Selector \<Rightarrow> int \<Rightarrow> int \<Rightarrow> TopologyAffinityCount \<Rightarrow> TopologyAffinityCount" where
  "countMatch p seletor socket numa topologyMap =
     (if Zone seletor = PodAnnotationMicroTopologyAffinitySocket (apiConsts p)
      then fold (\<lambda>n tm. increment tm n) (NUMANodesInSockets (machineInfo p) socket) topologyMap
      else increment topologyMap numa)"

definition matchNUMAAffinity ::
  "DynamicPolicy \<Rightarrow> Selector list \<Rightarrow> (string \<rightharpoonup> string) \<Rightarrow> int \<Rightarrow> int \<Rightarrow> TopologyAffinityCount" where
  "matchNUMAAffinity p Seletors podLabels socket numa =
     fold (\<lambda>seletor.
             fold (\<lambda>(key, val) topologyMap.
                     if indexString podLabels key = val
                     then countMatch p seletor socket numa topologyMap
                     else topologyMap)
                  (MatchLabels seletor))
          Seletors Map.empty"

definition matchPodAffinity ::
  "DynamicPolicy \<Rightarrow> Selector list \<Rightarrow> (string \<rightharpoonup> string list) \<Rightarrow> int \<Rightarrow> int \<Rightarrow> TopologyAffinityCount" where
  "matchPodAffinity p Seletors numaLabels socket numa =
     fold (\<lambda>seletor.
             fold (\<lambda>(key, val).
                     fold (\<lambda>numaVal topologyMap.
                             if numaVal = val
                             then countMatch p seletor socket numa topologyMap
                             else topologyMap)
                          (indexValues numaLabels key))
                  (MatchLabels seletor))
          Seletors Map.empty"

text \<open>
  Modelled from the spec: \<^verbatim>\<open>TopologyAffinityCount.Append\<close> is not in the sources; the
  partial results are merged by summing key-wise.
\<close>

definition Append :: "TopologyAffinityCount \<Rightarrow> TopologyAffinityCount \<Rightarrow> TopologyAffinityCount" where
  "Append counts other =
     (\<lambda>k. case other k of None \<Rightarrow> counts k | Some v \<Rightarrow> Some (indexCount counts k + v))"

text \<open>
  The three tallies. Each goroutine writes the slot of its own index and the loop that
  merges starts after \<^verbatim>\<open>wg.Wait()\<close>, so the result is that of the sequential run.
\<close>

definition getExistingAntiAffinityCounts :: "DynamicPolicy \<Rightarrow> preFilterState \<Rightarrow> preFilterState" where
  "getExistingAntiAffinityCounts p st =
     (let topologyMaps =
            map (\<lambda>numaAffinity.
                   matchNUMAAffinity p (numaInfo.AntiAffinityRequiredSelectors numaAffinity)
                     (podInfo.labels (podAffinityInfo st)) (socketID numaAffinity) (numaID numaAffinity))
                (numaAffinityInfoList st)
      in st\<lparr>existingAntiAffinityCounts :=
              fold (\<lambda>tm counts. Append counts tm) topologyMaps (existingAntiAffinityCounts st)\<rparr>)"

definition getAntiAffinityCounts :: "DynamicPolicy \<Rightarrow> preFilterState \<Rightarrow> preFilterState" where
  "getAntiAffinityCounts p st =
     (let topologyMaps =
            map (\<lambda>numaAffinity.
                   matchPodAffinity p (podInfo.AntiAffinityRequiredSelectors (podAffinityInfo st))
                     (numaInfo.labels numaAffinity) (socketID numaAffinity) (numaID numaAffinity))
                (numaAffinityInfoList st)
      in st\<lparr>antiAffinityCounts :=
              fold (\<lambda>tm counts. Append counts tm) topologyMaps (antiAffinityCounts st)\<rparr>)"

definition getAffinityCounts :: "DynamicPolicy \<Rightarrow> preFilterState \<Rightarrow> preFilterState" where
  "getAffinityCounts p st =
     (let topologyMaps =
            map (\<lambda>numaAffinity.
                   matchPodAffinity p (AffinityRequiredSelectors (podAffinityInfo st))
                     (numaInfo.labels numaAffinity) (socketID numaAffinity) (numaID numaAffinity))
                (numaAffinityInfoList st)
      in st\<lparr>affinityCounts :=
              fold (\<lambda>tm counts. Append counts tm) topologyMaps (affinityCounts st)\<rparr>)"

subsection \<open>The pre-filter and the hint filter\<close>

text \<open>A \<^verbatim>\<open>nil\<close> request panics at \<^verbatim>\<open>req.Annotations\<close>.\<close>

definition prePodAffinityFilter ::
  "DynamicPolicy \<Rightarrow> ResourceRequest option \<Rightarrow> error + preFilterState option" where
  "prePodAffinityFilter p req =
     (case req of
        None \<Rightarrow> Inl Panic
      | Some r \<Rightarrow>
          (case UnmarshalAffinity (collaborators p) (ResourceRequest.Annotations r) of
             Inl err \<Rightarrow> Inl err
           | Inr podAffinity \<Rightarrow>
               if indexString (ResourceRequest.Annotations r)
                    (PodAnnotationMemoryEnhancementNumaExclusive (apiConsts p))
                  = PodAnnotationMemoryEnhancementNumaExclusiveEnable (apiConsts p)
               then (if Affinity podAffinity \<noteq> None then Inl ExclusiveWithAffinity else Inr None)
               else
                 (case getNumaNodesAffinityInfo p of
                    Inl err \<Rightarrow> Inl err
                  | Inr numaNodesInfo \<Rightarrow>
                      Inr (Some
                        (getAffinityCounts p
                          (getAntiAffinityCounts p
                            (getExistingAntiAffinityCounts p
                              \<lparr>existingAntiAffinityCounts = Map.empty,
                               affinityCounts = Map.empty,
                               antiAffinityCounts = Map.empty,
                               podAffinityInfo = requiredPodAffinityInfo podAffinity r,
                               numaAffinityInfoList = numaNodesInfo\<rparr>)))))))"

text \<open>
  \<^verbatim>\<open>hint.GetNodes()\<close>, the accessor generated for the message: \<^verbatim>\<open>nil\<close> for a \<^verbatim>\<open>nil\<close>
  hint.
\<close>

definition GetNodes :: "TopologyHint option \<Rightarrow> 64 word list" where
  "GetNodes hint = (case hint of None \<Rightarrow> [] | Some h \<Rightarrow> Nodes h)"

text \<open>The loop of \<open>hintPodAffinityFilter\<close>; \<^verbatim>\<open>int(numa)\<close> reads the word as signed.\<close>

fun hintPodAffinityFilter_loop :: "preFilterState \<Rightarrow> 64 word list \<Rightarrow> bool" where
  "hintPodAffinityFilter_loop st [] = True"
| "hintPodAffinityFilter_loop st (numa # numaList) =
     (if indexCount (existingAntiAffinityCounts st) (sint numa) > 0 then False
      else if indexCount (antiAffinityCounts st) (sint numa) > 0 then False
      else if length (AffinityRequiredSelectors (podAffinityInfo st)) > 0
              \<and> indexCount (affinityCounts st) (sint numa) \<le> 0 then False
      else hintPodAffinityFilter_loop st numaList)"

definition hintPodAffinityFilter :: "preFilterState \<Rightarrow> TopologyHint option \<Rightarrow> bool" where
  "hintPodAffinityFilter st hint = hintPodAffinityFilter_loop st (GetNodes hint)"

fun podAffinityFilter_loop ::
  "preFilterState \<Rightarrow> TopologyHint option list \<Rightarrow> TopologyHint option list \<Rightarrow> TopologyHint option list" where
  "podAffinityFilter_loop st [] filterdTopologyHints = filterdTopologyHints"
| "podAffinityFilter_loop st (hint # rest) filterdTopologyHints =
     podAffinityFilter_loop st rest
       (if hintPodAffinityFilter st hint then filterdTopologyHints @ [hint] else filterdTopologyHints)"

text \<open>A \<^verbatim>\<open>nil\<close> list under the CPU resource panics at \<^verbatim>\<open>.Hints\<close>.\<close>

definition podAffinityFilter :: "preFilterState \<Rightarrow> HintsMap \<Rightarrow> error + HintsMap" where
  "podAffinityFilter st hints =
     (case indexHints hints ResourceCPU of
        None \<Rightarrow> Inl Panic
      | Some l \<Rightarrow> Inr [ResourceCPU \<mapsto> Some \<lparr>Hints = podAffinityFilter_loop st (Hints l) []\<rparr>])"

subsection \<open>The handlers\<close>

text \<open>
  A handler returns a response and an error, either of which may be \<^verbatim>\<open>nil\<close>; a panic is
  \<open>(None, Some Panic)\<close>.
\<close>

definition sharedCoresHintHandler ::
  "DynamicPolicy \<Rightarrow> ResourceRequest option \<Rightarrow> ResourceHintsResponse option \<times> error option" where
  "sharedCoresHintHandler p req =
     (case req of
        None \<Rightarrow> (None, Some GotNilRequest)
      | Some r \<Rightarrow> PackResourceHintsResponse (collaborators p) req ResourceCPU [ResourceCPU \<mapsto> None])"

definition reclaimedCoresHintHandler ::
  "DynamicPolicy \<Rightarrow> ResourceRequest option \<Rightarrow> ResourceHintsResponse option \<times> error option" where
  "reclaimedCoresHintHandler p req = sharedCoresHintHandler p req"

text \<open>
  \<^verbatim>\<open>delete(podEntries[req.PodUid], req.ContainerName)\<close> and, when no entry of the pod is
  left, \<^verbatim>\<open>delete(podEntries, req.PodUid)\<close> (lines 120-124).
\<close>

definition deleteContainer :: "PodEntries \<Rightarrow> string \<Rightarrow> string \<Rightarrow> PodEntries" where
  "deleteContainer podEntries podUid containerName =
     (let containerEntries =
            filter (\<lambda>(c, ai). c \<noteq> containerName)
              (case map_of podEntries podUid of None \<Rightarrow> [] | Some ce \<Rightarrow> ce)
      in if length containerEntries = 0
         then filter (\<lambda>(u, ce). u \<noteq> podUid) podEntries
         else map (\<lambda>(u, ce). if u = podUid then (u, containerEntries) else (u, ce)) podEntries)"

text \<open>
  Lines 106-156 of \<open>dedicatedCoresWithNUMABindingHintHandler\<close>: the hints before the
  affinity selection, regenerated from the allocation record, read from the extra state
  file, or calculated.
\<close>

definition dedicatedCoresWithNUMABindingHints ::
  "DynamicPolicy \<Rightarrow> ResourceRequest \<Rightarrow> error + HintsMap" where
  "dedicatedCoresWithNUMABindingHints p r =
     (case GetQuantityFromResourceReq (collaborators p) r of
        Inl err \<Rightarrow> Inl (GetReqQuantityFailed err)
      | Inr reqInt \<Rightarrow>
          (case (case GetAllocationInfo (state p) (PodUid r) (ContainerName r) of
                   None \<Rightarrow> Inr (None, GetMachineState (state p))
                 | Some allocationInfo \<Rightarrow>
                     (case RegenerateHints (collaborators p) allocationInfo reqInt of
                        Some hints \<Rightarrow> Inr (Some hints, GetMachineState (state p))
                      | None \<Rightarrow>
                          (case generateMachineStateFromPodEntries (collaborators p)
                                  (deleteContainer (GetPodEntries (state p)) (PodUid r) (ContainerName r)) of
                             Inl err \<Rightarrow> Inl (GenerateMachineStateFailed err)
                           | Inr machineState \<Rightarrow> Inr (None, machineState)))) of
             Inl err \<Rightarrow> Inl err
           | Inr (regenerated, machineState) \<Rightarrow>
               (case (case regenerated of
                        Some hints \<Rightarrow> Some hints
                      | None \<Rightarrow>
                          fst (GetHintsFromExtraStateFile (collaborators p) (PodName r) ResourceCPU
                                 (extraStateFileAbsPath p)
                                 (GetFilteredNUMASet (collaborators p) machineState))) of
                  Some hints \<Rightarrow> Inr hints
                | None \<Rightarrow>
                    (case calculateHints p reqInt machineState (ResourceRequest.Annotations r) of
                       Inl Panic \<Rightarrow> Inl Panic
                     | Inl calculateErr \<Rightarrow> Inl (CalculateHintsFailed calculateErr)
                     | Inr hints \<Rightarrow> Inr hints))))"

definition dedicatedCoresWithNUMABindingHintHandler ::
  "DynamicPolicy \<Rightarrow> ResourceRequest option \<Rightarrow> ResourceHintsResponse option \<times> error option" where
  "dedicatedCoresWithNUMABindingHintHandler p req =
     (case req of
        None \<Rightarrow> (None, Some Panic)
      | Some r \<Rightarrow>
          if ContainerType r = SIDECAR
          then PackResourceHintsResponse (collaborators p) req ResourceCPU [ResourceCPU \<mapsto> None]
          else
            (case dedicatedCoresWithNUMABindingHints p r of
               Inl err \<Rightarrow> (None, Some err)
             | Inr hints \<Rightarrow>
                 (case prePodAffinityFilter p req of
                    Inl Panic \<Rightarrow> (None, Some Panic)
                  | Inl err \<Rightarrow>
                      (fst (PackResourceHintsResponse (collaborators p) req ResourceCPU
                              [ResourceCPU \<mapsto> None]),
                       Some err)
                  | Inr None \<Rightarrow> PackResourceHintsResponse (collaborators p) req ResourceCPU hints
                  | Inr (Some st) \<Rightarrow>
                      (case podAffinityFilter st hints of
                         Inl err \<Rightarrow> (None, Some err)
                       | Inr filterdHints \<Rightarrow>
                           PackResourceHintsResponse (collaborators p) req ResourceCPU filterdHints))))"

definition dedicatedCoresWithoutNUMABindingHintHandler ::
  "DynamicPolicy \<Rightarrow> ResourceRequest option \<Rightarrow> ResourceHintsResponse option \<times> error option" where
  "dedicatedCoresWithoutNUMABindingHintHandler p req = (None, Some NotSupportWithoutNUMABinding)"

definition dedicatedCoresHintHandler ::
  "DynamicPolicy \<Rightarrow> ResourceRequest option \<Rightarrow> ResourceHintsResponse option \<times> error option" where
  "dedicatedCoresHintHandler p req =
     (case req of
        None \<Rightarrow> (None, Some DedicatedGotNilReq)
      | Some r \<Rightarrow>
          if indexString (ResourceRequest.Annotations r)
               (PodAnnotationMemoryEnhancementNumaBinding (apiConsts p))
             = PodAnnotationMemoryEnhancementNumaBindingEnable (apiConsts p)
          then dedicatedCoresWithNUMABindingHintHandler p req
          else dedicatedCoresWithoutNUMABindingHintHandler p req)"

subsection \<open>An example machine\<close>

text \<open>
  Two sockets of two NUMA nodes each, four CPUs per node, CPU 0 reserved. Two pods hold
  two CPUs of node 1: one with a main container and a sidecar, one with a main container
  whose affinity annotation does not parse. The strings of \<open>exampleConsts\<close>
  and the behaviour of the collaborators are chosen for the examples only.
\<close>

definition exampleConsts :: apiconsts where
  "exampleConsts =
     \<lparr>PodAnnotationMemoryEnhancementNumaBinding = ''numa_binding'',
      PodAnnotationMemoryEnhancementNumaBindingEnable = ''true'',
      PodAnnotationMemoryEnhancementNumaExclusive = ''numa_exclusive'',
      PodAnnotationMemoryEnhancementNumaExclusiveEnable = ''true'',
      PodAnnotationMicroTopologyInterPodAntiAffinity = ''anti_affinity'',
      PodAnnotationMicroTopologyAffinitySocket = ''socket''\<rparr>"

definition exampleMachineInfo :: KatalystMachineInfo where
  "exampleMachineInfo =
     \<lparr>NumNUMANodes = 4,
      SocketsInNUMANodes = (\<lambda>i. if i = 0 \<or> i = 1 then [0] else if i = 2 \<or> i = 3 then [1] else []),
      NUMANodesInSockets = (\<lambda>s. if s = 0 then [0, 1] else if s = 1 then [2, 3] else []),
      NUMAsPerSocket = Inr 2,
      GetNUMANodesCountToFitCPUReq =
        (\<lambda>r. if r \<le> 0 \<or> 16 < r then Inl (External ''invalid request'') else Inr ((r + 3) div 4)),
      CheckNUMACrossSockets =
        (\<lambda>bits. if list_all (\<lambda>b. 0 \<le> b \<and> b < 4) bits
                then Inr (list_ex (\<lambda>b. b < 2) bits \<and> list_ex (\<lambda>b. 2 \<le> b) bits)
                else Inl (External ''unknown NUMA node''))\<rparr>"

text \<open>
  The example's affinity annotations: the value names the \<open>app\<close> label a node-scoped
  selector matches; the value \<open>?\<close> does not parse.
\<close>

definition exampleSelectors :: "string option \<Rightarrow> Selector list" where
  "exampleSelectors v =
     (case v of None \<Rightarrow> [] | Some app \<Rightarrow> [\<lparr>MatchLabels = [(''app'', app)], Zone = ''numa''\<rparr>])"

definition exampleUnmarshalAffinity :: "(string \<rightharpoonup> string) \<Rightarrow> error + MicroTopologyPodAffnity" where
  "exampleUnmarshalAffinity annotations =
     (if annotations ''affinity'' = Some ''?'' \<or> annotations ''anti_affinity'' = Some ''?''
      then Inl (External ''unmarshal'')
      else Inr \<lparr>Affinity = map_option (\<lambda>app. exampleSelectors (Some app)) (annotations ''affinity''),
                AntiAffinity = Some (exampleSelectors (annotations ''anti_affinity''))\<rparr>)"

definition exampleMain :: AllocationInfo where
  "exampleMain =
     \<lparr>AllocationInfo.Labels = [''app'' \<mapsto> ''db''],
      AllocationInfo.Annotations = [''anti_affinity'' \<mapsto> ''web'']\<rparr>"

definition exampleSidecar :: AllocationInfo where
  "exampleSidecar =
     \<lparr>AllocationInfo.Labels = [''tier'' \<mapsto> ''cache''],
      AllocationInfo.Annotations = [''anti_affinity'' \<mapsto> ''?'']\<rparr>"

definition exampleBatch :: AllocationInfo where
  "exampleBatch =
     \<lparr>AllocationInfo.Labels = [''app'' \<mapsto> ''batch''],
      AllocationInfo.Annotations = [''affinity'' \<mapsto> ''?'']\<rparr>"

definition exampleNode1 :: NUMANodeState where
  "exampleNode1 =
     \<lparr>TotalCPUSet = {4, 5, 6, 7}, AllocatedCPUSet = {4, 5},
      PodEntries = [(''pod-a'', [(''main'', Some exampleMain), (''sidecar'', Some exampleSidecar)]),
                    (''pod-c'', [(''main'', Some exampleBatch)])]\<rparr>"

definition exampleMachineState :: NUMANodeMap where
  "exampleMachineState =
     [(0, Some \<lparr>TotalCPUSet = {0, 1, 2, 3}, AllocatedCPUSet = {}, PodEntries = []\<rparr>),
      (1, Some exampleNode1),
      (2, Some \<lparr>TotalCPUSet = {8, 9, 10, 11}, AllocatedCPUSet = {}, PodEntries = []\<rparr>),
      (3, Some \<lparr>TotalCPUSet = {12, 13, 14, 15}, AllocatedCPUSet = {}, PodEntries = []\<rparr>)]"

text \<open>
  A snapshot that holds no state for node 1 and names a node 5 that the topology does not
  know, so that the cross-socket lookup fails for every mask with node 5.
\<close>

definition staleMachineState :: NUMANodeMap where
  "staleMachineState =
     [(0, Some \<lparr>TotalCPUSet = {0, 1, 2, 3}, AllocatedCPUSet = {}, PodEntries = []\<rparr>),
      (1, None),
      (5, Some \<lparr>TotalCPUSet = {20, 21, 22, 23}, AllocatedCPUSet = {}, PodEntries = []\<rparr>)]"

definition exampleCollaborators :: Collaborators where
  "exampleCollaborators =
     \<lparr>GetQuantityFromResourceReq = (\<lambda>r. Inr 3),
      RegenerateHints = (\<lambda>allocationInfo reqInt. None),
      generateMachineStateFromPodEntries = (\<lambda>podEntries. Inr staleMachineState),
      GetFilteredNUMASet = (\<lambda>machineState. {0, 1, 2, 3}),
      GetHintsFromExtraStateFile = (\<lambda>podName resourceName path availableNUMAs. (None, None)),
      UnmarshalAffinity = exampleUnmarshalAffinity,
      PackResourceHintsResponse =
        (\<lambda>req resourceName hints.
           case req of
             None \<Rightarrow> (None, Some PackGotNilRequest)
           | Some r \<Rightarrow> (Some \<lparr>Request = r, ResourceName = resourceName, ResourceHints = hints\<rparr>, None)),
      AnnotationsIndicateNUMABinding = (\<lambda>annotations. indexString annotations ''numa_binding'' = ''true''),
      AnnotationsIndicateNUMAExclusive = (\<lambda>annotations. indexString annotations ''numa_exclusive'' = ''true'')\<rparr>"

definition examplePolicy :: DynamicPolicy where
  "examplePolicy =
     \<lparr>reservedCPUs = {0},
      extraStateFileAbsPath = ''/extra_state'',
      machineInfo = exampleMachineInfo,
      state = \<lparr>GetMachineState = exampleMachineState,
               GetAllocationInfo = (\<lambda>podUid containerName. None),
               GetPodEntries = []\<rparr>,
      collaborators = exampleCollaborators,
      apiConsts = exampleConsts\<rparr>"

text \<open>The policy of a topology that counts a fifth node, which no socket holds.\<close>

definition fiveNodePolicy :: DynamicPolicy where
  "fiveNodePolicy = examplePolicy\<lparr>machineInfo := exampleMachineInfo\<lparr>NumNUMANodes := 5\<rparr>\<rparr>"

text \<open>
  A snapshot in which the only entry of a pod on node 0, hence its first, carries an
  anti-affinity annotation that does not parse.
\<close>

definition unparsedMachineState :: NUMANodeMap where
  "unparsedMachineState =
     [(0, Some \<lparr>TotalCPUSet = {0, 1, 2, 3}, AllocatedCPUSet = {1},
               PodEntries = [(''pod-s'', [(''sidecar'', Some exampleSidecar)])]\<rparr>),
      (1, Some exampleNode1),
      (2, Some \<lparr>TotalCPUSet = {8, 9, 10, 11}, AllocatedCPUSet = {}, PodEntries = []\<rparr>),
      (3, Some \<lparr>TotalCPUSet = {12, 13, 14, 15}, AllocatedCPUSet = {}, PodEntries = []\<rparr>)]"

definition unparsedPolicy :: DynamicPolicy where
  "unparsedPolicy =
     examplePolicy\<lparr>state := \<lparr>GetMachineState = unparsedMachineState,
                              GetAllocationInfo = (\<lambda>podUid containerName. None),
                              GetPodEntries = []\<rparr>\<rparr>"

definition exampleRequest :: "(string \<rightharpoonup> string) \<Rightarrow> ResourceRequest" where
  "exampleRequest annotations =
     \<lparr>PodUid = ''uid-b'', PodNamespace = ''default'', PodName = ''pod-b'',
      ContainerName = ''main'', ContainerType = MAIN,
      ResourceRequest.Labels = [''app'' \<mapsto> ''web''],
      ResourceRequest.Annotations = annotations\<rparr>"

definition exampleHint :: "int list \<Rightarrow> bool \<Rightarrow> TopologyHint option" where
  "exampleHint nodes preferred = Some \<lparr>Nodes = map word_of_int nodes, Preferred = preferred\<rparr>"

definition exampleHints :: HintsMap where
  "exampleHints =
     [ResourceCPU \<mapsto> Some \<lparr>Hints = [exampleHint [0] True, exampleHint [1] True, exampleHint [0, 1] False]\<rparr>]"

definition exampleFilterState :: preFilterState where
  "exampleFilterState =
     \<lparr>existingAntiAffinityCounts = [1 \<mapsto> 1],
      affinityCounts = Map.empty,
      antiAffinityCounts = Map.empty,
      podAffinityInfo = \<lparr>podInfo.labels = [''app'' \<mapsto> ''web''],
                         AffinityRequiredSelectors = [],
                         podInfo.AntiAffinityRequiredSelectors = []\<rparr>,
      numaAffinityInfoList = []\<rparr>"

section \<open>Properties\<close>

subsection \<open>The enumeration of masks\<close>

lemma mem_combinations_Cons:
  "ys \<in> set (combinations (Suc n) (b # bits)) \<longleftrightarrow>
     (\<exists>zs. ys = b # zs \<and> zs \<in> set (combinations n bits)) \<or> ys \<in> set (combinations (Suc n) bits)"
  by auto

lemma mem_combinations: "ys \<in> set (combinations n xs) \<longleftrightarrow> subseq ys xs \<and> length ys = n"
proof (induction n xs arbitrary: ys rule: combinations.induct)
  case (1 bits)
  then show ?case by auto
next
  case (2 n)
  then show ?case by auto
next
  case (3 n b bits)
  show ?case
  proof (cases ys)
    case Nil
    then show ?thesis unfolding mem_combinations_Cons 3 by simp
  next
    case (Cons y zs)
    show ?thesis
    proof (cases "y = b")
      case True
      have "subseq (b # zs) bits \<Longrightarrow> subseq zs bits"
        by (rule subseq_Cons')
      then show ?thesis unfolding mem_combinations_Cons 3 Cons True by auto
    next
      case False
      then show ?thesis unfolding mem_combinations_Cons 3 Cons by simp
    qed
  qed
qed

text \<open>Every non-empty sub-list of the bits is enumerated, and nothing else.\<close>

lemma mem_allMasks: "ys \<in> set (allMasks bits) \<longleftrightarrow> subseq ys bits \<and> ys \<noteq> []"
proof -
  have "ys \<in> set (allMasks bits) \<longleftrightarrow> (1 \<le> length ys \<and> length ys \<le> length bits \<and> subseq ys bits)"
    by (auto simp: allMasks_def mem_combinations)
  moreover have "subseq ys bits \<Longrightarrow> length ys \<le> length bits"
    by (rule list_emb_length)
  ultimately show ?thesis
    by (cases ys) auto
qed

lemma subseq_sorted_distinct:
  assumes "subseq ys xs" "sorted xs" "distinct xs"
  shows "sort (remdups ys) = ys"
proof -
  obtain N where "ys = nths xs N"
    using assms(1) by (auto simp: subseq_conv_nths)
  then have "sorted ys" "distinct ys"
    using assms(2,3) by (simp_all add: sorted_nths)
  then show ?thesis
    by (simp add: distinct_remdups_id sorted_sort_id)
qed

lemma numaNodes_sorted_distinct: "sorted (numaNodes ms)" "distinct (numaNodes ms)"
  by (simp_all add: numaNodes_def)

lemma mask_of_numaNodes:
  "m \<in> set (allMasks (numaNodes ms)) \<Longrightarrow> sort (remdups m) = m"
  by (auto simp: mem_allMasks intro: subseq_sorted_distinct numaNodes_sorted_distinct)

lemma subseq_set_subset: "subseq ys xs \<Longrightarrow> set ys \<subseteq> set xs"
  by (auto simp: subseq_conv_nths dest: in_set_nthsD)

lemma subseq_list_all: "subseq ys xs \<Longrightarrow> list_all P xs \<Longrightarrow> list_all P ys"
  using subseq_set_subset[of ys xs] by (auto simp: list_all_iff)

lemma IterateBitMasks_allMasks:
  "IterateBitMasks bits callback s = iterateCalls callback (allMasks bits) s"
  by (simp add: IterateBitMasks_def allMasks_def)

subsection \<open>One run of the callback, and all of them\<close>

lemma callback_Some:
  "calculateHints_callback p r ms ann minN nps (Some m) hints =
     Inr (hints @ maskHints p r ms ann minN nps m)"
  by (simp add: calculateHints_callback_def maskHints_def Let_def split: option.split sum.split)

lemma callback_None: "calculateHints_callback p r ms ann minN nps None hints = Inl Panic"
  by (simp add: calculateHints_callback_def)

lemma callback_skips:
  "maskHints p r ms ann minN nps m = [] \<Longrightarrow>
     calculateHints_callback p r ms ann minN nps (Some m) hints = Inr hints"
  by (simp add: callback_Some)

lemma iterateCalls_in_range:
  assumes "\<forall>a \<in> set accs. list_all (\<lambda>i. 0 \<le> i \<and> i < 64) a"
  shows "iterateCalls (calculateHints_callback p r ms ann minN nps) accs s =
           Inr (s @ concat (map (\<lambda>a. maskHints p r ms ann minN nps (sort (remdups a))) accs))"
  using assms
  by (induction accs arbitrary: s) (simp_all add: NewBitMask_def callback_Some)

lemma iterateCalls_panic:
  assumes "\<exists>a \<in> set accs. \<not> list_all (\<lambda>i. 0 \<le> i \<and> i < 64) a"
  shows "iterateCalls (calculateHints_callback p r ms ann minN nps) accs s = Inl Panic"
  using assms
proof (induction accs arbitrary: s)
  case Nil
  then show ?case by simp
next
  case (Cons a accs)
  show ?case
  proof (cases "list_all (\<lambda>i. 0 \<le> i \<and> i < 64) a")
    case True
    with Cons.prems have "\<exists>a \<in> set accs. \<not> list_all (\<lambda>i. 0 \<le> i \<and> i < 64) a" by auto
    with Cons.IH True show ?thesis
      by (simp add: NewBitMask_def callback_Some)
  next
    case False
    then show ?thesis by (simp add: NewBitMask_def callback_None)
  qed
qed

lemma IterateBitMasks_numaNodes:
  "IterateBitMasks (numaNodes ms) (calculateHints_callback p r ms ann minN nps) [] =
     (if list_all (\<lambda>i. 0 \<le> i \<and> i < 64) (numaNodes ms)
      then Inr (concat (map (maskHints p r ms ann minN nps) (allMasks (numaNodes ms))))
      else Inl Panic)"
proof (cases "list_all (\<lambda>i. 0 \<le> i \<and> i < 64) (numaNodes ms)")
  case True
  then have inr: "\<forall>a \<in> set (allMasks (numaNodes ms)). list_all (\<lambda>i. 0 \<le> i \<and> i < 64) a"
    by (auto simp: mem_allMasks intro: subseq_list_all)
  have "map (\<lambda>a. maskHints p r ms ann minN nps (sort (remdups a))) (allMasks (numaNodes ms))
        = map (maskHints p r ms ann minN nps) (allMasks (numaNodes ms))"
    by (rule map_cong) (simp_all add: mask_of_numaNodes)
  with iterateCalls_in_range[OF inr, of p r ms ann minN nps "[]"] True show ?thesis
    by (simp add: IterateBitMasks_allMasks)
next
  case False
  then obtain n where n: "n \<in> set (numaNodes ms)" "\<not> (0 \<le> n \<and> n < 64)"
    by (auto simp: list_all_iff)
  then have "[n] \<in> set (allMasks (numaNodes ms))"
    by (simp add: mem_allMasks subseq_singleton_left)
  moreover have "\<not> list_all (\<lambda>i. 0 \<le> i \<and> i < 64) [n]"
    using n by simp
  ultimately have "\<exists>a \<in> set (allMasks (numaNodes ms)). \<not> list_all (\<lambda>i. 0 \<le> i \<and> i < 64) a"
    by blast
  from iterateCalls_panic[OF this] False show ?thesis
    by (simp add: IterateBitMasks_allMasks)
qed

text \<open>
  The whole of \<open>calculateHints\<close>: the three errors it returns, the panic on a node ID
  that no mask can hold, and otherwise the hints of the masks in the order of the
  enumeration.
\<close>

lemma calculateHints_eq:
  "calculateHints p r ms ann =
     (case GetNUMANodesCountToFitCPUReq (machineInfo p) r of
        Inl err \<Rightarrow> Inl (GetNUMANodesCountFailed err)
      | Inr minN \<Rightarrow>
          if AnnotationsIndicateNUMABinding (collaborators p) ann
             \<and> \<not> AnnotationsIndicateNUMAExclusive (collaborators p) ann \<and> minN > 1
          then Inl NotExclusiveLargerThanOneNUMA
          else
            (case NUMAsPerSocket (machineInfo p) of
               Inl err \<Rightarrow> Inl (NUMAsPerSocketFailed err)
             | Inr nps \<Rightarrow>
                 if list_all (\<lambda>i. 0 \<le> i \<and> i < 64) (numaNodes ms)
                 then Inr [ResourceCPU \<mapsto>
                        Some \<lparr>Hints = concat (map (maskHints p r ms ann minN nps) (allMasks (numaNodes ms)))\<rparr>]
                 else Inl Panic))"
  by (simp add: calculateHints_def IterateBitMasks_numaNodes split: sum.split)

lemma calculateHints_Inr:
  assumes "calculateHints p r ms ann = Inr hm"
  obtains minN nps where
    "GetNUMANodesCountToFitCPUReq (machineInfo p) r = Inr minN"
    "\<not> (AnnotationsIndicateNUMABinding (collaborators p) ann
        \<and> \<not> AnnotationsIndicateNUMAExclusive (collaborators p) ann \<and> 1 < minN)"
    "NUMAsPerSocket (machineInfo p) = Inr nps"
    "list_all (\<lambda>i. 0 \<le> i \<and> i < 64) (numaNodes ms)"
    "hm = [ResourceCPU \<mapsto>
        Some \<lparr>Hints = concat (map (maskHints p r ms ann minN nps) (allMasks (numaNodes ms)))\<rparr>]"
  using assms unfolding calculateHints_eq
  by (auto split: sum.splits if_splits)

subsection \<open>The hints of one mask\<close>

lemma availableUnion_Nil: "availableUnion p ms [] = {}"
  by (simp add: availableUnion_def)

lemma availableUnion_Cons:
  "availableUnion p ms (n # m) =
     (case indexNUMA ms n of None \<Rightarrow> {} | Some ns \<Rightarrow> GetAvailableCPUSet ns (reservedCPUs p))
     \<union> availableUnion p ms m"
  by (simp add: availableUnion_def)

lemma availableCPUsInMask_Some_iff:
  "availableCPUsInMask p ms ann m acc = Some S \<longleftrightarrow>
     (\<forall>n \<in> set m. \<exists>ns. indexNUMA ms n = Some ns
         \<and> \<not> (AnnotationsIndicateNUMAExclusive (collaborators p) ann \<and> 0 < card (AllocatedCPUSet ns)))
     \<and> S = acc \<union> availableUnion p ms m"
proof (induction m arbitrary: acc)
  case Nil
  then show ?case by (auto simp: availableUnion_Nil)
next
  case (Cons n m)
  show ?case
  proof (cases "indexNUMA ms n")
    case None
    then show ?thesis by simp
  next
    case (Some ns)
    then show ?thesis
      by (simp add: Cons.IH availableUnion_Cons Un_assoc)
  qed
qed

lemma availableCPUsInMask_cases:
  "availableCPUsInMask p ms ann m {} =
     (if \<forall>n \<in> set m. \<exists>ns. indexNUMA ms n = Some ns
            \<and> \<not> (AnnotationsIndicateNUMAExclusive (collaborators p) ann \<and> 0 < card (AllocatedCPUSet ns))
      then Some (availableUnion p ms m) else None)"
proof (cases "availableCPUsInMask p ms ann m {}")
  case None
  then show ?thesis
    using availableCPUsInMask_Some_iff[of p ms ann m "{}" "availableUnion p ms m"] by auto
next
  case (Some S)
  then show ?thesis
    using availableCPUsInMask_Some_iff[of p ms ann m "{}" S] by auto
qed

text \<open>A mask yields one hint when it passes every check of the callback, and none otherwise.\<close>

lemma maskHints_eq:
  "maskHints p r ms ann minN nps m =
     (if minN \<le> int (length m)
         \<and> \<not> (AnnotationsIndicateNUMABinding (collaborators p) ann
               \<and> \<not> AnnotationsIndicateNUMAExclusive (collaborators p) ann \<and> 1 < int (length m))
         \<and> (\<forall>n \<in> set m. \<exists>ns. indexNUMA ms n = Some ns
               \<and> \<not> (AnnotationsIndicateNUMAExclusive (collaborators p) ann \<and> 0 < card (AllocatedCPUSet ns)))
         \<and> r \<le> int (card (availableUnion p ms m))
         \<and> (\<exists>crossSockets. CheckNUMACrossSockets (machineInfo p) m = Inr crossSockets
               \<and> \<not> (int (length m) \<le> nps \<and> crossSockets))
      then [Some \<lparr>Nodes = MaskToUInt64Array m, Preferred = (int (length m) = minN)\<rparr>]
      else [])"
proof -
  define A where "A \<longleftrightarrow> (\<forall>n \<in> set m. \<exists>ns. indexNUMA ms n = Some ns
               \<and> \<not> (AnnotationsIndicateNUMAExclusive (collaborators p) ann \<and> 0 < card (AllocatedCPUSet ns)))"
  define U where "U = availableUnion p ms m"
  define B where "B \<longleftrightarrow> (AnnotationsIndicateNUMABinding (collaborators p) ann
               \<and> \<not> AnnotationsIndicateNUMAExclusive (collaborators p) ann \<and> 1 < int (length m))"
  have av: "availableCPUsInMask p ms ann m {} = (if A then Some U else None)"
    unfolding A_def U_def by (rule availableCPUsInMask_cases)
  have "maskHints p r ms ann minN nps m =
     (if minN \<le> int (length m) \<and> \<not> B \<and> A \<and> r \<le> int (card U)
         \<and> (\<exists>crossSockets. CheckNUMACrossSockets (machineInfo p) m = Inr crossSockets
               \<and> \<not> (int (length m) \<le> nps \<and> crossSockets))
      then [Some \<lparr>Nodes = MaskToUInt64Array m, Preferred = (int (length m) = minN)\<rparr>]
      else [])"
    unfolding maskHints_def calculateHints_callback_def
    by (cases "CheckNUMACrossSockets (machineInfo p) m") (auto simp: Let_def B_def av)
  then show ?thesis unfolding A_def U_def B_def .
qed

lemma maskHints_nil_state:
  "n \<in> set m \<Longrightarrow> indexNUMA ms n = None \<Longrightarrow> maskHints p r ms ann minN nps m = []"
  by (force simp: maskHints_eq)

lemma maskHints_lookup_failed:
  "CheckNUMACrossSockets (machineInfo p) m = Inl err \<Longrightarrow> maskHints p r ms ann minN nps m = []"
  by (simp add: maskHints_eq)

lemma maskHints_too_small:
  "int (card (availableUnion p ms m)) < r \<Longrightarrow> maskHints p r ms ann minN nps m = []"
  by (simp add: maskHints_eq)

lemma maskHints_crosses_sockets:
  "CheckNUMACrossSockets (machineInfo p) m = Inr True \<Longrightarrow> int (length m) \<le> nps \<Longrightarrow>
     maskHints p r ms ann minN nps m = []"
  by (simp add: maskHints_eq)

lemma mem_concat_maskHints:
  "h \<in> set (concat (map (maskHints p r ms ann minN nps) (allMasks bits))) \<longleftrightarrow>
     (\<exists>m. subseq m bits \<and> m \<noteq> [] \<and> h \<in> set (maskHints p r ms ann minN nps m))"
  by (auto simp: mem_allMasks)

lemma hint_of_mask:
  assumes "h \<in> set (concat (map (maskHints p r ms ann minN nps) (allMasks (numaNodes ms))))"
  obtains m where "subseq m (numaNodes ms)" "m \<noteq> []"
    "h = Some \<lparr>Nodes = MaskToUInt64Array m, Preferred = (int (length m) = minN)\<rparr>"
    "maskHints p r ms ann minN nps m =
       [Some \<lparr>Nodes = MaskToUInt64Array m, Preferred = (int (length m) = minN)\<rparr>]"
proof -
  from assms obtain m where m: "subseq m (numaNodes ms)" "m \<noteq> []"
      "h \<in> set (maskHints p r ms ann minN nps m)"
    unfolding mem_concat_maskHints by blast
  from m(3) have "maskHints p r ms ann minN nps m =
       [Some \<lparr>Nodes = MaskToUInt64Array m, Preferred = (int (length m) = minN)\<rparr>]"
    unfolding maskHints_eq[of p r ms ann minN nps m] by (simp split: if_splits)
  with m that show thesis by auto
qed

subsection \<open>Node IDs as unsigned words\<close>

lemma uint_word_of_int_in_range:
  "0 \<le> i \<Longrightarrow> i < 64 \<Longrightarrow> uint (word_of_int i :: 64 word) = i"
  by (simp add: uint_word_of_int_eq take_bit_int_eq_self)

lemma map_uint_MaskToUInt64Array:
  "list_all (\<lambda>i. 0 \<le> i \<and> i < 64) m \<Longrightarrow> map uint (MaskToUInt64Array m) = m"
  by (induction m) (simp_all add: MaskToUInt64Array_def uint_word_of_int_in_range)

lemma MaskToUInt64Array_inj:
  assumes "list_all (\<lambda>i. 0 \<le> i \<and> i < 64) m" "list_all (\<lambda>i. 0 \<le> i \<and> i < 64) m'"
    and "MaskToUInt64Array m = MaskToUInt64Array m'"
  shows "m = m'"
proof -
  have "m = map uint (MaskToUInt64Array m)"
    by (rule map_uint_MaskToUInt64Array[OF assms(1), symmetric])
  also have "\<dots> = map uint (MaskToUInt64Array m')"
    by (simp only: assms(3))
  also have "\<dots> = m'"
    by (rule map_uint_MaskToUInt64Array[OF assms(2)])
  finally show ?thesis .
qed

lemma length_MaskToUInt64Array: "length (MaskToUInt64Array m) = length m"
  by (simp add: MaskToUInt64Array_def)

text \<open>A mask that yields no hint is the node set of no hint of the result.\<close>

lemma skipped_mask_not_emitted:
  assumes range: "list_all (\<lambda>i. 0 \<le> i \<and> i < 64) (numaNodes ms)"
    and m: "subseq m (numaNodes ms)"
    and skipped: "maskHints p r ms ann minN nps m = []"
    and h: "h \<in> set (concat (map (maskHints p r ms ann minN nps) (allMasks (numaNodes ms))))"
  shows "GetNodes h \<noteq> MaskToUInt64Array m"
proof
  assume eq: "GetNodes h = MaskToUInt64Array m"
  from h obtain m' where m': "subseq m' (numaNodes ms)"
      "h = Some \<lparr>Nodes = MaskToUInt64Array m', Preferred = (int (length m') = minN)\<rparr>"
      "maskHints p r ms ann minN nps m' =
         [Some \<lparr>Nodes = MaskToUInt64Array m', Preferred = (int (length m') = minN)\<rparr>]"
    by (rule hint_of_mask)
  from eq m'(2) have "MaskToUInt64Array m' = MaskToUInt64Array m"
    by (simp add: GetNodes_def)
  moreover have "list_all (\<lambda>i. 0 \<le> i \<and> i < 64) m" "list_all (\<lambda>i. 0 \<le> i \<and> i < 64) m'"
    using subseq_list_all[OF m range] subseq_list_all[OF m'(1) range] .
  ultimately have "m' = m"
    by (intro MaskToUInt64Array_inj)
  with m'(3) skipped show False by simp
qed

subsection \<open>The affinity counter\<close>

text \<open>The counts only grow from zero, so every count the pre-filter hands on is not negative.\<close>

lemma fold_invariant:
  assumes "\<And>x s. P s \<Longrightarrow> P (f x s)" and "P s"
  shows "P (fold f xs s)"
  using assms(2) by (induction xs arbitrary: s) (simp_all add: assms(1))

lemma indexCount_empty: "indexCount Map.empty k = 0"
  by (simp add: indexCount_def)

lemma indexCount_increment:
  "indexCount (increment topologyMap n) k =
     (if k = n then indexCount topologyMap n + 1 else indexCount topologyMap k)"
  by (simp add: increment_def indexCount_def)

lemma indexCount_Append:
  "indexCount (Append counts other) k = indexCount counts k + indexCount other k"
  by (simp add: Append_def indexCount_def split: option.split)

lemma increment_nonneg:
  "\<forall>k. 0 \<le> indexCount topologyMap k \<Longrightarrow> \<forall>k. 0 \<le> indexCount (increment topologyMap n) k"
  by (simp add: indexCount_increment)

lemma countMatch_nonneg:
  assumes "\<forall>k. 0 \<le> indexCount topologyMap k"
  shows "\<forall>k. 0 \<le> indexCount (countMatch p seletor socket numa topologyMap) k"
proof (cases "Zone seletor = PodAnnotationMicroTopologyAffinitySocket (apiConsts p)")
  case True
  have "\<forall>k. 0 \<le> indexCount (fold (\<lambda>n tm. increment tm n)
                (NUMANodesInSockets (machineInfo p) socket) topologyMap) k"
    by (rule fold_invariant[where P = "\<lambda>tm. \<forall>k. 0 \<le> indexCount tm k"])
       (simp_all add: increment_nonneg assms)
  with True show ?thesis by (simp add: countMatch_def)
next
  case False
  with increment_nonneg[OF assms] show ?thesis by (simp add: countMatch_def)
qed

lemma matchNUMAAffinity_nonneg:
  "\<forall>k. 0 \<le> indexCount (matchNUMAAffinity p Seletors podLabels socket numa) k"
  unfolding matchNUMAAffinity_def
proof (rule fold_invariant[where P = "\<lambda>tm. \<forall>k. 0 \<le> indexCount tm k"])
  show "\<forall>k. 0 \<le> indexCount Map.empty k"
    by (simp add: indexCount_empty)
next
  fix seletor and s :: TopologyAffinityCount
  assume s: "\<forall>k. 0 \<le> indexCount s k"
  show "\<forall>k. 0 \<le> indexCount
          (fold (\<lambda>(key, val) topologyMap.
                   if indexString podLabels key = val
                   then countMatch p seletor socket numa topologyMap
                   else topologyMap)
                (MatchLabels seletor) s) k"
  proof (rule fold_invariant[where P = "\<lambda>tm. \<forall>k. 0 \<le> indexCount tm k"])
    show "\<forall>k. 0 \<le> indexCount s k" by (rule s)
  next
    fix x :: "string \<times> string" and tm :: TopologyAffinityCount
    assume "\<forall>k. 0 \<le> indexCount tm k"
    then show "\<forall>k. 0 \<le> indexCount
          ((case x of (key, val) \<Rightarrow> \<lambda>topologyMap.
                   if indexString podLabels key = val
                   then countMatch p seletor socket numa topologyMap
                   else topologyMap) tm) k"
      using countMatch_nonneg[of tm p seletor socket numa]
      by (cases x) simp
  qed
qed

lemma matchPodAffinity_nonneg:
  "\<forall>k. 0 \<le> indexCount (matchPodAffinity p Seletors numaLabels socket numa) k"
  unfolding matchPodAffinity_def
proof (rule fold_invariant[where P = "\<lambda>tm. \<forall>k. 0 \<le> indexCount tm k"])
  show "\<forall>k. 0 \<le> indexCount Map.empty k"
    by (simp add: indexCount_empty)
next
  fix seletor and s :: TopologyAffinityCount
  assume s: "\<forall>k. 0 \<le> indexCount s k"
  show "\<forall>k. 0 \<le> indexCount
          (fold (\<lambda>(key, val).
                   fold (\<lambda>numaVal topologyMap.
                           if numaVal = val
                           then countMatch p seletor socket numa topologyMap
                           else topologyMap)
                        (indexValues numaLabels key))
                (MatchLabels seletor) s) k"
  proof (rule fold_invariant[where P = "\<lambda>tm. \<forall>k. 0 \<le> indexCount tm k"])
    show "\<forall>k. 0 \<le> indexCount s k" by (rule s)
  next
    fix x :: "string \<times> string" and tm :: TopologyAffinityCount
    assume tm: "\<forall>k. 0 \<le> indexCount tm k"
    obtain key val where x: "x = (key, val)" by (cases x)
    have "\<forall>k. 0 \<le> indexCount
          (fold (\<lambda>numaVal topologyMap.
                   if numaVal = val
                   then countMatch p seletor socket numa topologyMap
                   else topologyMap)
                (indexValues numaLabels key) tm) k"
      by (rule fold_invariant[where P = "\<lambda>tm. \<forall>k. 0 \<le> indexCount tm k"])
         (simp_all add: countMatch_nonneg tm)
    with x show "\<forall>k. 0 \<le> indexCount
          ((case x of (key, val) \<Rightarrow>
                   fold (\<lambda>numaVal topologyMap.
                           if numaVal = val
                           then countMatch p seletor socket numa topologyMap
                           else topologyMap)
                        (indexValues numaLabels key)) tm) k"
      by simp
  qed
qed

lemma fold_Append_nonneg:
  assumes "\<forall>tm \<in> set topologyMaps. \<forall>k. 0 \<le> indexCount tm k"
    and "\<forall>k. 0 \<le> indexCount counts k"
  shows "\<forall>k. 0 \<le> indexCount (fold (\<lambda>tm counts. Append counts tm) topologyMaps counts) k"
  using assms
  by (induction topologyMaps arbitrary: counts) (simp_all add: indexCount_Append)

lemma prePodAffinityFilter_counts_nonneg:
  assumes "prePodAffinityFilter p req = Inr (Some st)"
  shows "(\<forall>n. 0 \<le> indexCount (existingAntiAffinityCounts st) n)
     \<and> (\<forall>n. 0 \<le> indexCount (antiAffinityCounts st) n)
     \<and> (\<forall>n. 0 \<le> indexCount (affinityCounts st) n)"
proof -
  from assms obtain r podAffinity infos where
    st: "st = getAffinityCounts p
                (getAntiAffinityCounts p
                  (getExistingAntiAffinityCounts p
                    \<lparr>existingAntiAffinityCounts = Map.empty,
                     affinityCounts = Map.empty,
                     antiAffinityCounts = Map.empty,
                     podAffinityInfo = requiredPodAffinityInfo podAffinity r,
                     numaAffinityInfoList = infos\<rparr>))"
    by (auto simp: prePodAffinityFilter_def split: option.splits sum.splits if_splits)
  show ?thesis
    unfolding st getAffinityCounts_def getAntiAffinityCounts_def getExistingAntiAffinityCounts_def
    by (simp add: Let_def fold_Append_nonneg matchNUMAAffinity_nonneg matchPodAffinity_nonneg
          indexCount_empty)
qed

subsection \<open>The hint filter\<close>

lemma podAffinityFilter_loop_filter:
  "podAffinityFilter_loop st hs acc = acc @ filter (hintPodAffinityFilter st) hs"
  by (induction hs arbitrary: acc) simp_all

lemma podAffinityFilter_eq:
  "podAffinityFilter st hints =
     (case indexHints hints ResourceCPU of
        None \<Rightarrow> Inl Panic
      | Some l \<Rightarrow> Inr [ResourceCPU \<mapsto> Some \<lparr>Hints = filter (hintPodAffinityFilter st) (Hints l)\<rparr>])"
  by (simp add: podAffinityFilter_def podAffinityFilter_loop_filter split: option.split)

lemma hintPodAffinityFilter_loop_iff:
  "hintPodAffinityFilter_loop st numaList \<longleftrightarrow>
     (\<forall>numa \<in> set numaList.
        \<not> indexCount (existingAntiAffinityCounts st) (sint numa) > 0
        \<and> \<not> indexCount (antiAffinityCounts st) (sint numa) > 0
        \<and> (AffinityRequiredSelectors (podAffinityInfo st) \<noteq> []
             \<longrightarrow> 0 < indexCount (affinityCounts st) (sint numa)))"
  by (induction numaList) auto

subsection \<open>The affinity info collector\<close>

lemma firstEntries_Nil: "firstEntries [] = []"
  by (simp add: firstEntries_def)

lemma firstEntries_Cons:
  "firstEntries ((podUID, containerEntries) # rest) =
     (case containerEntries of [] \<Rightarrow> [] | (containerName, allocationInfo) # others \<Rightarrow> [allocationInfo])
     @ firstEntries rest"
  by (simp add: firstEntries_def)

lemma collectPodEntries_readable:
  "list_all (entryReadable p) (firstEntries podEntries) \<Longrightarrow>
   collectPodEntries p podEntries info =
     Inr (info\<lparr>numaInfo.labels := fold mergeEntryLabels (firstEntries podEntries) (numaInfo.labels info),
               numaInfo.AntiAffinityRequiredSelectors :=
                 numaInfo.AntiAffinityRequiredSelectors info
                 @ concat (map (entrySelectors p) (firstEntries podEntries))\<rparr>)"
proof (induction podEntries arbitrary: info)
  case Nil
  then show ?case by (simp add: firstEntries_Nil)
next
  case (Cons pod rest)
  obtain podUID containerEntries where pod: "pod = (podUID, containerEntries)"
    by (cases pod)
  show ?case
  proof (cases containerEntries)
    case Nil
    with Cons pod show ?thesis by (simp add: firstEntries_Cons)
  next
    case (Cons first others)
    obtain containerName allocationInfo where first: "first = (containerName, allocationInfo)"
      by (cases first)
    from Cons.prems pod Cons first have
      readable: "entryReadable p allocationInfo" and
      rest: "list_all (entryReadable p) (firstEntries rest)"
      by (simp_all add: firstEntries_Cons)
    from readable obtain ai where ai: "allocationInfo = Some ai"
      by (cases allocationInfo) (simp_all add: entryReadable_def)
    show ?thesis
    proof (cases "indexString (AllocationInfo.Annotations ai)
               (PodAnnotationMicroTopologyInterPodAntiAffinity (apiConsts p)) = []")
      case True
      then show ?thesis
        using Cons.IH[OF rest] pod Cons first ai
        by (simp add: firstEntries_Cons mergeEntryLabels_def entrySelectors_def)
    next
      case False
      with readable ai obtain podAffinity required where
        "UnmarshalAffinity (collaborators p) (AllocationInfo.Annotations ai) = Inr podAffinity"
        "AntiAffinity podAffinity = Some required"
        by (auto simp: entryReadable_def split: sum.splits)
      with False show ?thesis
        using Cons.IH[OF rest] pod Cons first ai
        by (simp add: firstEntries_Cons mergeEntryLabels_def entrySelectors_def)
    qed
  qed
qed

lemma collectPodEntries_unreadable:
  "\<not> list_all (entryReadable p) (firstEntries podEntries) \<Longrightarrow>
   collectPodEntries p podEntries info = Inl Panic
   \<or> collectPodEntries p podEntries info = Inl UnmarshalAffinityFailed"
proof (induction podEntries arbitrary: info)
  case Nil
  then show ?case by (simp add: firstEntries_Nil)
next
  case (Cons pod rest)
  obtain podUID containerEntries where pod: "pod = (podUID, containerEntries)"
    by (cases pod)
  show ?case
  proof (cases containerEntries)
    case Nil
    with Cons pod show ?thesis by (simp add: firstEntries_Cons)
  next
    case (Cons first others)
    obtain containerName allocationInfo where first: "first = (containerName, allocationInfo)"
      by (cases first)
    show ?thesis
    proof (cases "entryReadable p allocationInfo")
      case True
      with Cons.prems pod Cons first have "\<not> list_all (entryReadable p) (firstEntries rest)"
        by (simp add: firstEntries_Cons)
      from Cons.IH[OF this] True show ?thesis
        using pod Cons first
        by (auto simp: entryReadable_def Let_def split: option.splits sum.splits if_splits)
    next
      case False
      then show ?thesis
        using pod Cons first
        by (auto simp: entryReadable_def Let_def split: option.splits sum.splits if_splits)
    qed
  qed
qed

lemma indexValues_mergeEntryLabels:
  "set (indexValues (mergeEntryLabels entry numaLabels) k) =
     set (indexValues numaLabels k)
     \<union> {v. \<exists>ai. entry = Some ai \<and> AllocationInfo.Labels ai k = Some v}"
  by (cases entry)
     (auto simp: mergeEntryLabels_def MergeNumaInfoMap_def indexValues_def Let_def
           split: option.splits)

lemma distinct_mergeEntryLabels:
  "distinct (indexValues numaLabels k) \<Longrightarrow>
   distinct (indexValues (mergeEntryLabels entry numaLabels) k)"
  by (cases entry)
     (auto simp: mergeEntryLabels_def MergeNumaInfoMap_def indexValues_def Let_def
           split: option.splits)

lemma indexValues_fold_mergeEntryLabels:
  "set (indexValues (fold mergeEntryLabels entries numaLabels) k) =
     set (indexValues numaLabels k)
     \<union> {v. \<exists>ai. Some ai \<in> set entries \<and> AllocationInfo.Labels ai k = Some v}"
proof (induction entries arbitrary: numaLabels)
  case Nil
  then show ?case by simp
next
  case (Cons entry entries)
  show ?case
    unfolding fold_simps Cons.IH indexValues_mergeEntryLabels
    by auto
qed

lemma distinct_fold_mergeEntryLabels:
  "distinct (indexValues numaLabels k) \<Longrightarrow>
   distinct (indexValues (fold mergeEntryLabels entries numaLabels) k)"
  by (induction entries arbitrary: numaLabels) (simp_all add: distinct_mergeEntryLabels)

lemma collectPodEntries_Inr:
  assumes "collectPodEntries p podEntries info = Inr info'"
  shows "list_all (entryReadable p) (firstEntries podEntries)
     \<and> info' = info\<lparr>numaInfo.labels := fold mergeEntryLabels (firstEntries podEntries) (numaInfo.labels info),
               numaInfo.AntiAffinityRequiredSelectors :=
                 numaInfo.AntiAffinityRequiredSelectors info
                 @ concat (map (entrySelectors p) (firstEntries podEntries))\<rparr>"
proof -
  have readable: "list_all (entryReadable p) (firstEntries podEntries)"
    using collectPodEntries_unreadable[of p podEntries info] assms by auto
  from collectPodEntries_readable[OF this, of info] assms readable show ?thesis
    by simp
qed

lemma getNumaNodesAffinityInfo_loop_Inr:
  assumes "getNumaNodesAffinityInfo_loop p nodes acc = Inr infos"
  shows "\<exists>new. infos = acc @ new
     \<and> list_all2 (\<lambda>i info. \<exists>socket sockets numaState.
           SocketsInNUMANodes (machineInfo p) i = socket # sockets
           \<and> indexNUMA (GetMachineState (state p)) i = Some numaState
           \<and> list_all (entryReadable p) (firstEntries (PodEntries numaState))
           \<and> info = \<lparr>numaInfo.labels = fold mergeEntryLabels (firstEntries (PodEntries numaState)) Map.empty,
                      socketID = socket, numaID = i,
                      numaInfo.AntiAffinityRequiredSelectors =
                        concat (map (entrySelectors p) (firstEntries (PodEntries numaState)))\<rparr>)
         nodes new"
  using assms
proof (induction nodes arbitrary: acc)
  case Nil
  then show ?case by simp
next
  case (Cons i rest)
  from Cons.prems obtain socket sockets numaState numaNodeInfo where
    s: "SocketsInNUMANodes (machineInfo p) i = socket # sockets" and
    n: "indexNUMA (GetMachineState (state p)) i = Some numaState" and
    c: "collectPodEntries p (PodEntries numaState)
          \<lparr>numaInfo.labels = Map.empty, socketID = socket, numaID = i,
           numaInfo.AntiAffinityRequiredSelectors = []\<rparr> = Inr numaNodeInfo" and
    r: "getNumaNodesAffinityInfo_loop p rest (acc @ [numaNodeInfo]) = Inr infos"
    by (auto split: list.splits option.splits sum.splits)
  from Cons.IH[OF r] obtain new where new: "infos = (acc @ [numaNodeInfo]) @ new"
    "list_all2 (\<lambda>i info. \<exists>socket sockets numaState.
           SocketsInNUMANodes (machineInfo p) i = socket # sockets
           \<and> indexNUMA (GetMachineState (state p)) i = Some numaState
           \<and> list_all (entryReadable p) (firstEntries (PodEntries numaState))
           \<and> info = \<lparr>numaInfo.labels = fold mergeEntryLabels (firstEntries (PodEntries numaState)) Map.empty,
                      socketID = socket, numaID = i,
                      numaInfo.AntiAffinityRequiredSelectors =
                        concat (map (entrySelectors p) (firstEntries (PodEntries numaState)))\<rparr>)
         rest new"
    by blast
  from collectPodEntries_Inr[OF c] have
    "list_all (entryReadable p) (firstEntries (PodEntries numaState))"
    "numaNodeInfo = \<lparr>numaInfo.labels = fold mergeEntryLabels (firstEntries (PodEntries numaState)) Map.empty,
                      socketID = socket, numaID = i,
                      numaInfo.AntiAffinityRequiredSelectors =
                        concat (map (entrySelectors p) (firstEntries (PodEntries numaState)))\<rparr>"
    by simp_all
  with s n new show ?case
    by (intro exI[of _ "numaNodeInfo # new"]) simp
qed

lemma getNumaNodesAffinityInfo_loop_Inl:
  assumes "getNumaNodesAffinityInfo_loop p nodes acc = Inl e"
  shows "e = Panic \<or> e = UnmarshalAffinityFailed
     \<or> (\<exists>i \<in> set nodes. e = SocketNotFound i \<and> SocketsInNUMANodes (machineInfo p) i = [])"
  using assms
proof (induction nodes arbitrary: acc)
  case Nil
  then show ?case by simp
next
  case (Cons i rest)
  show ?case
  proof (cases "SocketsInNUMANodes (machineInfo p) i")
    case Nil
    with Cons.prems show ?thesis by simp
  next
    case sockets: (Cons socket sockets)
    show ?thesis
    proof (cases "indexNUMA (GetMachineState (state p)) i")
      case None
      with Cons.prems sockets show ?thesis by simp
    next
      case (Some numaState)
      show ?thesis
      proof (cases "collectPodEntries p (PodEntries numaState)
          \<lparr>numaInfo.labels = Map.empty, socketID = socket, numaID = i,
           numaInfo.AntiAffinityRequiredSelectors = []\<rparr>")
        case (Inl err)
        have "list_all (entryReadable p) (firstEntries (PodEntries numaState)) \<Longrightarrow> False"
          using collectPodEntries_readable[of p "PodEntries numaState"
              "\<lparr>numaInfo.labels = Map.empty, socketID = socket, numaID = i,
                numaInfo.AntiAffinityRequiredSelectors = []\<rparr>"] Inl
          by simp
        then have "err = Panic \<or> err = UnmarshalAffinityFailed"
          using collectPodEntries_unreadable[of p "PodEntries numaState"
              "\<lparr>numaInfo.labels = Map.empty, socketID = socket, numaID = i,
                numaInfo.AntiAffinityRequiredSelectors = []\<rparr>"] Inl
          by auto
        with Cons.prems sockets Some Inl show ?thesis by auto
      next
        case (Inr numaNodeInfo)
        with Cons.prems sockets Some
        have "getNumaNodesAffinityInfo_loop p rest (acc @ [numaNodeInfo]) = Inl e"
          by simp
        from Cons.IH[OF this] show ?thesis by auto
      qed
    qed
  qed
qed

text \<open>Without a \<^verbatim>\<open>nil\<close> to dereference, the collector does not panic.\<close>

lemma collectPodEntries_no_panic:
  "list_all (entryNotNil p) (firstEntries podEntries) \<Longrightarrow>
   collectPodEntries p podEntries info \<noteq> Inl Panic"
proof (induction podEntries arbitrary: info)
  case Nil
  then show ?case by simp
next
  case (Cons pod rest)
  obtain podUID containerEntries where pod: "pod = (podUID, containerEntries)"
    by (cases pod)
  show ?case
  proof (cases containerEntries)
    case Nil
    with Cons pod show ?thesis by (simp add: firstEntries_Cons)
  next
    case (Cons first others)
    obtain containerName allocationInfo where first: "first = (containerName, allocationInfo)"
      by (cases first)
    from Cons.prems pod Cons first have
      notnil: "entryNotNil p allocationInfo" and
      rest: "list_all (entryNotNil p) (firstEntries rest)"
      by (simp_all add: firstEntries_Cons)
    from notnil obtain ai where ai: "allocationInfo = Some ai"
      by (cases allocationInfo) (simp_all add: entryNotNil_def)
    show ?thesis
    proof (cases "indexString (AllocationInfo.Annotations ai)
               (PodAnnotationMicroTopologyInterPodAntiAffinity (apiConsts p)) = []")
      case True
      then show ?thesis
        using Cons.IH[OF rest] pod Cons first ai by simp
    next
      case False
      show ?thesis
      proof (cases "UnmarshalAffinity (collaborators p) (AllocationInfo.Annotations ai)")
        case (Inl err)
        with False show ?thesis
          using pod Cons first ai by simp
      next
        case (Inr podAffinity)
        with False notnil ai obtain required where "AntiAffinity podAffinity = Some required"
          by (auto simp: entryNotNil_def)
        with False Inr show ?thesis
          using Cons.IH[OF rest] pod Cons first ai by simp
      qed
    qed
  qed
qed

lemma getNumaNodesAffinityInfo_loop_no_panic:
  assumes "list_all (\<lambda>i. case SocketsInNUMANodes (machineInfo p) i of
                     [] \<Rightarrow> True
                   | socket # sockets \<Rightarrow>
                       (case indexNUMA (GetMachineState (state p)) i of
                          None \<Rightarrow> False
                        | Some numaState \<Rightarrow>
                            list_all (entryNotNil p) (firstEntries (PodEntries numaState))))
              nodes"
  shows "getNumaNodesAffinityInfo_loop p nodes acc \<noteq> Inl Panic"
  using assms
proof (induction nodes arbitrary: acc)
  case Nil
  then show ?case by simp
next
  case (Cons i rest)
  show ?case
  proof (cases "SocketsInNUMANodes (machineInfo p) i")
    case Nil
    then show ?thesis by simp
  next
    case sockets: (Cons socket sockets)
    with Cons.prems obtain numaState where
      n: "indexNUMA (GetMachineState (state p)) i = Some numaState" and
      e: "list_all (entryNotNil p) (firstEntries (PodEntries numaState))"
      by (auto split: option.splits)
    show ?thesis
    proof (cases "collectPodEntries p (PodEntries numaState)
          \<lparr>numaInfo.labels = Map.empty, socketID = socket, numaID = i,
           numaInfo.AntiAffinityRequiredSelectors = []\<rparr>")
      case (Inl err)
      with collectPodEntries_no_panic[OF e, of "\<lparr>numaInfo.labels = Map.empty, socketID = socket,
           numaID = i, numaInfo.AntiAffinityRequiredSelectors = []\<rparr>"]
      have "err \<noteq> Panic" by auto
      with sockets n Inl show ?thesis by simp
    next
      case (Inr numaNodeInfo)
      from Cons.prems have "list_all (\<lambda>i. case SocketsInNUMANodes (machineInfo p) i of
                     [] \<Rightarrow> True
                   | socket # sockets \<Rightarrow>
                       (case indexNUMA (GetMachineState (state p)) i of
                          None \<Rightarrow> False
                        | Some numaState \<Rightarrow>
                            list_all (entryNotNil p) (firstEntries (PodEntries numaState))))
              rest"
        by simp
      from Cons.IH[OF this] sockets n Inr show ?thesis by simp
    qed
  qed
qed

lemma getNumaNodesAffinityInfo_no_panic:
  "visitsNoNil p \<Longrightarrow> getNumaNodesAffinityInfo p \<noteq> Inl Panic"
  unfolding visitsNoNil_def getNumaNodesAffinityInfo_def
  by (rule getNumaNodesAffinityInfo_loop_no_panic)

lemma length_upto_from_0: "length [0..n - 1] = nat n"
  by simp

lemma nth_upto_from_0: "0 \<le> i \<Longrightarrow> i < n \<Longrightarrow> [0..n - 1] ! nat i = i"
  by (simp add: nth_upto)

lemma mem_upto_from_0: "i \<in> set [0..n - 1] \<longleftrightarrow> 0 \<le> i \<and> i < n"
  by auto

subsection \<open>Evaluation of the examples\<close>

lemmas example_defs = examplePolicy_def exampleMachineInfo_def exampleCollaborators_def
  exampleConsts_def exampleMachineState_def exampleNode1_def fiveNodePolicy_def staleMachineState_def exampleRequest_def
  unparsedMachineState_def unparsedPolicy_def
  exampleHint_def exampleMain_def exampleSidecar_def exampleBatch_def exampleUnmarshalAffinity_def
  exampleSelectors_def exampleHints_def exampleFilterState_def

lemmas eval_defs = calculateHints_def IterateBitMasks_def calculateHints_callback_def NewBitMask_def
  numaNodes_def indexNUMA_def GetAvailableCPUSet_def MaskToUInt64Array_def ResourceCPU_def
  indexString_def indexHints_def indexCount_def GetNodes_def

lemma example_calculateHints:
  "calculateHints examplePolicy 4 exampleMachineState Map.empty
     = Inr [ResourceCPU \<mapsto> Some \<lparr>Hints =
         [exampleHint [2] True, exampleHint [3] True, exampleHint [0, 1] False, exampleHint [2, 3] False,
          exampleHint [0, 1, 2] False, exampleHint [0, 1, 3] False, exampleHint [0, 2, 3] False,
          exampleHint [1, 2, 3] False, exampleHint [0, 1, 2, 3] False]\<rparr>]"
  by (simp add: eval_defs example_defs eval_nat_numeral upt_rec)

lemma stale_calculateHints:
  "calculateHints examplePolicy 3 staleMachineState Map.empty
     = Inr [ResourceCPU \<mapsto> Some \<lparr>Hints = [exampleHint [0] True]\<rparr>]"
  by (simp add: eval_defs example_defs eval_nat_numeral upt_rec)

lemma binding_calculateHints:
  "calculateHints examplePolicy 3 exampleMachineState [''numa_binding'' \<mapsto> ''true'']
     = Inr [ResourceCPU \<mapsto> Some \<lparr>Hints =
         [exampleHint [0] True, exampleHint [2] True, exampleHint [3] True]\<rparr>]"
  by (simp add: eval_defs example_defs eval_nat_numeral upt_rec)

lemma example_podAffinityFilter:
  "podAffinityFilter exampleFilterState exampleHints
     = Inr [ResourceCPU \<mapsto> Some \<lparr>Hints = [exampleHint [0] True]\<rparr>]"
  by (simp add: podAffinityFilter_def hintPodAffinityFilter_def eval_defs example_defs)

subsection \<open>Claims about the hint filter and the dispatcher\<close>

text \<open>
  C2. Given counts that are not negative, as every state that \<open>prePodAffinityFilter\<close>
  builds has them (lemma \<open>prePodAffinityFilter_counts_nonneg\<close>), the filter keeps a hint
  exactly when every node
  of the hint has an existing-anti-affinity count of zero, a new-pod-anti-affinity count
  of zero and, if the pod has required affinity selectors, a positive affinity count. The
  result of \<open>podAffinityFilter\<close> holds exactly the hints of the input that pass.
\<close>

theorem hint_filter_retains_iff_every_node_passes:
  assumes "\<forall>n. 0 \<le> indexCount (existingAntiAffinityCounts st) n"
    and "\<forall>n. 0 \<le> indexCount (antiAffinityCounts st) n"
    and "indexHints hints ResourceCPU = Some l"
  shows "(hintPodAffinityFilter st hint \<longleftrightarrow>
            (\<forall>numa \<in> set (GetNodes hint).
               indexCount (existingAntiAffinityCounts st) (sint numa) = 0
               \<and> indexCount (antiAffinityCounts st) (sint numa) = 0
               \<and> (AffinityRequiredSelectors (podAffinityInfo st) \<noteq> []
                    \<longrightarrow> 0 < indexCount (affinityCounts st) (sint numa))))
         \<and> (\<exists>out. podAffinityFilter st hints = Inr [ResourceCPU \<mapsto> Some \<lparr>Hints = out\<rparr>]
                \<and> (hint \<in> set out \<longleftrightarrow> hint \<in> set (Hints l) \<and> hintPodAffinityFilter st hint))"
proof -
  have zero: "\<not> indexCount (existingAntiAffinityCounts st) n > 0
                \<longleftrightarrow> indexCount (existingAntiAffinityCounts st) n = 0"
             "\<not> indexCount (antiAffinityCounts st) n > 0
                \<longleftrightarrow> indexCount (antiAffinityCounts st) n = 0" for n
    using assms(1,2) by (auto simp: order.order_iff_strict)
  have "hintPodAffinityFilter st hint \<longleftrightarrow>
            (\<forall>numa \<in> set (GetNodes hint).
               indexCount (existingAntiAffinityCounts st) (sint numa) = 0
               \<and> indexCount (antiAffinityCounts st) (sint numa) = 0
               \<and> (AffinityRequiredSelectors (podAffinityInfo st) \<noteq> []
                    \<longrightarrow> 0 < indexCount (affinityCounts st) (sint numa)))"
    unfolding hintPodAffinityFilter_def hintPodAffinityFilter_loop_iff zero ..
  moreover have "podAffinityFilter st hints =
      Inr [ResourceCPU \<mapsto> Some \<lparr>Hints = filter (hintPodAffinityFilter st) (Hints l)\<rparr>]"
    by (simp add: podAffinityFilter_eq assms(3))
  ultimately show ?thesis
    by (intro conjI exI[of _ "filter (hintPodAffinityFilter st) (Hints l)"]) simp_all
qed

theorem hint_filter_retains_iff_every_node_passes_witness:
  "(\<forall>n. 0 \<le> indexCount (existingAntiAffinityCounts exampleFilterState) n)
   \<and> (\<forall>n. 0 \<le> indexCount (antiAffinityCounts exampleFilterState) n)
   \<and> indexHints exampleHints ResourceCPU
       = Some \<lparr>Hints = [exampleHint [0] True, exampleHint [1] True, exampleHint [0, 1] False]\<rparr>
   \<and> \<not> hintPodAffinityFilter exampleFilterState (exampleHint [0, 1] False)
   \<and> indexCount (existingAntiAffinityCounts exampleFilterState) (sint (1 :: 64 word)) = 1
   \<and> (\<exists>out. podAffinityFilter exampleFilterState exampleHints = Inr [ResourceCPU \<mapsto> Some \<lparr>Hints = out\<rparr>]
         \<and> exampleHint [0, 1] False \<notin> set out)"
proof -
  have h1: "\<forall>n. 0 \<le> indexCount (existingAntiAffinityCounts exampleFilterState) n"
    by (simp add: exampleFilterState_def indexCount_def)
  have h2: "\<forall>n. 0 \<le> indexCount (antiAffinityCounts exampleFilterState) n"
    by (simp add: exampleFilterState_def indexCount_def)
  have h3: "indexHints exampleHints ResourceCPU
       = Some \<lparr>Hints = [exampleHint [0] True, exampleHint [1] True, exampleHint [0, 1] False]\<rparr>"
    by (simp add: exampleHints_def indexHints_def)
  have c: "indexCount (existingAntiAffinityCounts exampleFilterState) (sint (1 :: 64 word)) = 1"
    by (simp add: exampleFilterState_def indexCount_def)
  have n: "(1 :: 64 word) \<in> set (GetNodes (exampleHint [0, 1] False))"
    by (simp add: GetNodes_def exampleHint_def)
  from hint_filter_retains_iff_every_node_passes[OF h1 h2 h3, of "exampleHint [0, 1] False"] c n
  have "\<not> hintPodAffinityFilter exampleFilterState (exampleHint [0, 1] False)
        \<and> (\<exists>out. podAffinityFilter exampleFilterState exampleHints = Inr [ResourceCPU \<mapsto> Some \<lparr>Hints = out\<rparr>]
         \<and> exampleHint [0, 1] False \<notin> set out)"
    by fastforce
  with h1 h2 h3 c show ?thesis by blast
qed

text \<open>
  C10. The hints \<open>podAffinityFilter\<close> returns are a subsequence of the hints it is given:
  the same values, none added or changed, in the same relative order.
\<close>

theorem filter_output_is_subsequence:
  assumes "indexHints hints ResourceCPU = Some l"
  shows "\<exists>out. podAffinityFilter st hints = Inr [ResourceCPU \<mapsto> Some \<lparr>Hints = out\<rparr>]
           \<and> subseq out (Hints l)"
  by (intro exI[of _ "filter (hintPodAffinityFilter st) (Hints l)"])
     (simp add: podAffinityFilter_eq assms)

theorem filter_output_is_subsequence_witness:
  "indexHints exampleHints ResourceCPU
       = Some \<lparr>Hints = [exampleHint [0] True, exampleHint [1] True, exampleHint [0, 1] False]\<rparr>
   \<and> podAffinityFilter exampleFilterState exampleHints
       = Inr [ResourceCPU \<mapsto> Some \<lparr>Hints = [exampleHint [0] True]\<rparr>]
   \<and> (\<exists>out. podAffinityFilter exampleFilterState exampleHints = Inr [ResourceCPU \<mapsto> Some \<lparr>Hints = out\<rparr>]
         \<and> subseq out [exampleHint [0] True, exampleHint [1] True, exampleHint [0, 1] False])"
proof -
  have h: "indexHints exampleHints ResourceCPU
       = Some \<lparr>Hints = [exampleHint [0] True, exampleHint [1] True, exampleHint [0, 1] False]\<rparr>"
    by (simp add: exampleHints_def indexHints_def)
  from filter_output_is_subsequence[OF h, of exampleFilterState] h example_podAffinityFilter
  show ?thesis by simp
qed

text \<open>
  C9. A dedicated request whose NUMA-binding annotation is absent or is not the enabling
  value gets no response and the error of the handler without NUMA binding.
\<close>

theorem dedicated_without_binding_not_supported:
  assumes "indexString (ResourceRequest.Annotations r)
             (PodAnnotationMemoryEnhancementNumaBinding (apiConsts p))
           \<noteq> PodAnnotationMemoryEnhancementNumaBindingEnable (apiConsts p)"
  shows "dedicatedCoresHintHandler p (Some r) = (None, Some NotSupportWithoutNUMABinding)"
  using assms
  by (simp add: dedicatedCoresHintHandler_def dedicatedCoresWithoutNUMABindingHintHandler_def)

theorem dedicated_without_binding_not_supported_witness:
  "indexString (ResourceRequest.Annotations (exampleRequest Map.empty))
       (PodAnnotationMemoryEnhancementNumaBinding (apiConsts examplePolicy))
     \<noteq> PodAnnotationMemoryEnhancementNumaBindingEnable (apiConsts examplePolicy)
   \<and> dedicatedCoresHintHandler examplePolicy (Some (exampleRequest Map.empty))
       = (None, Some NotSupportWithoutNUMABinding)
   \<and> indexString (ResourceRequest.Annotations (exampleRequest [''numa_binding'' \<mapsto> ''false'']))
       (PodAnnotationMemoryEnhancementNumaBinding (apiConsts examplePolicy))
     \<noteq> PodAnnotationMemoryEnhancementNumaBindingEnable (apiConsts examplePolicy)
   \<and> dedicatedCoresHintHandler examplePolicy (Some (exampleRequest [''numa_binding'' \<mapsto> ''false'']))
       = (None, Some NotSupportWithoutNUMABinding)"
proof -
  have absent: "indexString (ResourceRequest.Annotations (exampleRequest Map.empty))
       (PodAnnotationMemoryEnhancementNumaBinding (apiConsts examplePolicy))
     \<noteq> PodAnnotationMemoryEnhancementNumaBindingEnable (apiConsts examplePolicy)"
    by (simp add: example_defs indexString_def)
  have disabled: "indexString (ResourceRequest.Annotations (exampleRequest [''numa_binding'' \<mapsto> ''false'']))
       (PodAnnotationMemoryEnhancementNumaBinding (apiConsts examplePolicy))
     \<noteq> PodAnnotationMemoryEnhancementNumaBindingEnable (apiConsts examplePolicy)"
    by (simp add: example_defs indexString_def)
  from dedicated_without_binding_not_supported[OF absent]
    dedicated_without_binding_not_supported[OF disabled] absent disabled
  show ?thesis by blast
qed

subsection \<open>Claims about the hint calculator\<close>

text \<open>
  C4. Every hint that \<open>calculateHints\<close> returns is the hint of an enumerated mask whose
  nodes all have state and whose union of available CPUs (total minus allocated minus
  reserved) has at least as many CPUs as requested; a mask whose union is smaller is the
  node set of no returned hint.
\<close>

theorem emitted_hints_fit_request:
  assumes "calculateHints p reqInt machineState reqAnnotations = Inr hm"
  shows "\<exists>hints. hm = [ResourceCPU \<mapsto> Some \<lparr>Hints = hints\<rparr>]
      \<and> (\<forall>h \<in> set hints. \<exists>m. m \<noteq> [] \<and> subseq m (numaNodes machineState)
            \<and> h \<noteq> None \<and> GetNodes h = MaskToUInt64Array m
            \<and> (\<forall>n \<in> set m. indexNUMA machineState n \<noteq> None)
            \<and> reqInt \<le> int (card (availableUnion p machineState m)))
      \<and> (\<forall>m. subseq m (numaNodes machineState)
               \<and> int (card (availableUnion p machineState m)) < reqInt
            \<longrightarrow> (\<forall>h \<in> set hints. GetNodes h \<noteq> MaskToUInt64Array m))"
proof -
  from assms obtain minN nps where
    range: "list_all (\<lambda>i. 0 \<le> i \<and> i < 64) (numaNodes machineState)" and
    hm: "hm = [ResourceCPU \<mapsto> Some \<lparr>Hints = concat (map
           (maskHints p reqInt machineState reqAnnotations minN nps)
           (allMasks (numaNodes machineState)))\<rparr>]"
    by (rule calculateHints_Inr)
  let ?hints = "concat (map (maskHints p reqInt machineState reqAnnotations minN nps)
                  (allMasks (numaNodes machineState)))"
  have fit: "\<exists>m. m \<noteq> [] \<and> subseq m (numaNodes machineState)
            \<and> h \<noteq> None \<and> GetNodes h = MaskToUInt64Array m
            \<and> (\<forall>n \<in> set m. indexNUMA machineState n \<noteq> None)
            \<and> reqInt \<le> int (card (availableUnion p machineState m))"
    if "h \<in> set ?hints" for h
  proof -
    from that obtain m where m: "subseq m (numaNodes machineState)" "m \<noteq> []"
      "h = Some \<lparr>Nodes = MaskToUInt64Array m, Preferred = (int (length m) = minN)\<rparr>"
      "maskHints p reqInt machineState reqAnnotations minN nps m =
         [Some \<lparr>Nodes = MaskToUInt64Array m, Preferred = (int (length m) = minN)\<rparr>]"
      by (rule hint_of_mask)
    from m(4) have "(\<forall>n \<in> set m. indexNUMA machineState n \<noteq> None)
        \<and> reqInt \<le> int (card (availableUnion p machineState m))"
      unfolding maskHints_eq[of p reqInt machineState reqAnnotations minN nps m]
      by (auto split: if_splits)
    with m(1,2,3) show ?thesis
      by (intro exI[of _ m]) (simp add: GetNodes_def)
  qed
  have skip: "GetNodes h \<noteq> MaskToUInt64Array m"
    if "subseq m (numaNodes machineState)"
      "int (card (availableUnion p machineState m)) < reqInt" "h \<in> set ?hints" for m h
  proof -
    from that(2) have "maskHints p reqInt machineState reqAnnotations minN nps m = []"
      unfolding maskHints_eq[of p reqInt machineState reqAnnotations minN nps m] by simp
    from skipped_mask_not_emitted[OF range that(1) this that(3)] show ?thesis .
  qed
  show ?thesis
    by (intro exI[of _ ?hints] conjI hm) (use fit skip in blast)+
qed

theorem emitted_hints_fit_request_witness:
  "calculateHints examplePolicy 4 exampleMachineState Map.empty
     = Inr [ResourceCPU \<mapsto> Some \<lparr>Hints =
         [exampleHint [2] True, exampleHint [3] True, exampleHint [0, 1] False, exampleHint [2, 3] False,
          exampleHint [0, 1, 2] False, exampleHint [0, 1, 3] False, exampleHint [0, 2, 3] False,
          exampleHint [1, 2, 3] False, exampleHint [0, 1, 2, 3] False]\<rparr>]
   \<and> card (availableUnion examplePolicy exampleMachineState [0]) = 3
   \<and> card (availableUnion examplePolicy exampleMachineState [0, 1]) = 5
   \<and> (\<exists>hints. [ResourceCPU \<mapsto> Some \<lparr>Hints =
         [exampleHint [2] True, exampleHint [3] True, exampleHint [0, 1] False, exampleHint [2, 3] False,
          exampleHint [0, 1, 2] False, exampleHint [0, 1, 3] False, exampleHint [0, 2, 3] False,
          exampleHint [1, 2, 3] False, exampleHint [0, 1, 2, 3] False]\<rparr>]
           = [ResourceCPU \<mapsto> Some \<lparr>Hints = hints\<rparr>]
      \<and> (\<forall>h \<in> set hints. \<exists>m. m \<noteq> [] \<and> subseq m (numaNodes exampleMachineState)
            \<and> h \<noteq> None \<and> GetNodes h = MaskToUInt64Array m
            \<and> (\<forall>n \<in> set m. indexNUMA exampleMachineState n \<noteq> None)
            \<and> 4 \<le> int (card (availableUnion examplePolicy exampleMachineState m)))
      \<and> (\<forall>m. subseq m (numaNodes exampleMachineState)
               \<and> int (card (availableUnion examplePolicy exampleMachineState m)) < 4
            \<longrightarrow> (\<forall>h \<in> set hints. GetNodes h \<noteq> MaskToUInt64Array m)))"
proof -
  have a: "card (availableUnion examplePolicy exampleMachineState [0]) = 3"
    by (simp add: availableUnion_def eval_defs example_defs)
  have b: "card (availableUnion examplePolicy exampleMachineState [0, 1]) = 5"
    by (simp add: availableUnion_def eval_defs example_defs)
  from emitted_hints_fit_request[OF example_calculateHints] example_calculateHints a b
  show ?thesis by blast
qed

text \<open>
  C5. A returned hint is preferred exactly when the number of its nodes is the minimum
  count that \<open>GetNUMANodesCountToFitCPUReq\<close> gave for the request, and no returned hint
  has fewer nodes; so a hint with more nodes is never preferred.
\<close>

theorem preferred_iff_minimal_count:
  assumes "calculateHints p reqInt machineState reqAnnotations = Inr hm"
  shows "\<exists>minN hints. GetNUMANodesCountToFitCPUReq (machineInfo p) reqInt = Inr minN
      \<and> hm = [ResourceCPU \<mapsto> Some \<lparr>Hints = hints\<rparr>]
      \<and> (\<forall>h \<in> set hints. \<exists>hint. h = Some hint
            \<and> (Preferred hint \<longleftrightarrow> int (length (Nodes hint)) = minN)
            \<and> minN \<le> int (length (Nodes hint)))"
proof -
  from assms obtain minN nps where
    minN: "GetNUMANodesCountToFitCPUReq (machineInfo p) reqInt = Inr minN" and
    hm: "hm = [ResourceCPU \<mapsto> Some \<lparr>Hints = concat (map
           (maskHints p reqInt machineState reqAnnotations minN nps)
           (allMasks (numaNodes machineState)))\<rparr>]"
    by (rule calculateHints_Inr)
  let ?hints = "concat (map (maskHints p reqInt machineState reqAnnotations minN nps)
                  (allMasks (numaNodes machineState)))"
  have "\<exists>hint. h = Some hint
            \<and> (Preferred hint \<longleftrightarrow> int (length (Nodes hint)) = minN)
            \<and> minN \<le> int (length (Nodes hint))"
    if "h \<in> set ?hints" for h
  proof -
    from that obtain m where m:
      "h = Some \<lparr>Nodes = MaskToUInt64Array m, Preferred = (int (length m) = minN)\<rparr>"
      "maskHints p reqInt machineState reqAnnotations minN nps m =
         [Some \<lparr>Nodes = MaskToUInt64Array m, Preferred = (int (length m) = minN)\<rparr>]"
      by (rule hint_of_mask)
    from m(2) have "minN \<le> int (length m)"
      unfolding maskHints_eq[of p reqInt machineState reqAnnotations minN nps m]
      by (auto split: if_splits)
    with m(1) show ?thesis
      by (simp add: length_MaskToUInt64Array)
  qed
  then show ?thesis
    by (intro exI[of _ minN] exI[of _ ?hints] conjI minN hm) blast
qed

theorem preferred_iff_minimal_count_witness:
  "calculateHints examplePolicy 4 exampleMachineState Map.empty
     = Inr [ResourceCPU \<mapsto> Some \<lparr>Hints =
         [exampleHint [2] True, exampleHint [3] True, exampleHint [0, 1] False, exampleHint [2, 3] False,
          exampleHint [0, 1, 2] False, exampleHint [0, 1, 3] False, exampleHint [0, 2, 3] False,
          exampleHint [1, 2, 3] False, exampleHint [0, 1, 2, 3] False]\<rparr>]
   \<and> GetNUMANodesCountToFitCPUReq (machineInfo examplePolicy) 4 = Inr 1
   \<and> (\<exists>minN hints. GetNUMANodesCountToFitCPUReq (machineInfo examplePolicy) 4 = Inr minN
      \<and> [ResourceCPU \<mapsto> Some \<lparr>Hints =
         [exampleHint [2] True, exampleHint [3] True, exampleHint [0, 1] False, exampleHint [2, 3] False,
          exampleHint [0, 1, 2] False, exampleHint [0, 1, 3] False, exampleHint [0, 2, 3] False,
          exampleHint [1, 2, 3] False, exampleHint [0, 1, 2, 3] False]\<rparr>]
           = [ResourceCPU \<mapsto> Some \<lparr>Hints = hints\<rparr>]
      \<and> (\<forall>h \<in> set hints. \<exists>hint. h = Some hint
            \<and> (Preferred hint \<longleftrightarrow> int (length (Nodes hint)) = minN)
            \<and> minN \<le> int (length (Nodes hint))))"
proof -
  have a: "GetNUMANodesCountToFitCPUReq (machineInfo examplePolicy) 4 = Inr 1"
    by (simp add: example_defs)
  from preferred_iff_minimal_count[OF example_calculateHints] example_calculateHints a
  show ?thesis by blast
qed

text \<open>
  C6. The callback skips a mask that crosses sockets and has at most as many nodes as a
  socket holds, and such a mask is the node set of no returned hint. For a mask with more
  nodes than a socket holds, whether a hint is appended does not depend on the answer of
  the cross-socket check.
\<close>

theorem cross_socket_exclusion:
  "(CheckNUMACrossSockets (machineInfo p) m = Inr True \<and> int (length m) \<le> nps
      \<longrightarrow> calculateHints_callback p reqInt machineState reqAnnotations minN nps (Some m) hints = Inr hints)
   \<and> (\<forall>hm l. calculateHints p reqInt machineState reqAnnotations = Inr hm
          \<and> NUMAsPerSocket (machineInfo p) = Inr nps
          \<and> subseq m (numaNodes machineState)
          \<and> CheckNUMACrossSockets (machineInfo p) m = Inr True \<and> int (length m) \<le> nps
          \<and> indexHints hm ResourceCPU = Some l
        \<longrightarrow> (\<forall>h \<in> set (Hints l). GetNodes h \<noteq> MaskToUInt64Array m))
   \<and> (\<forall>crossSockets. CheckNUMACrossSockets (machineInfo p) m = Inr crossSockets
          \<and> nps < int (length m)
        \<longrightarrow> calculateHints_callback p reqInt machineState reqAnnotations minN nps (Some m) hints =
              Inr (hints @
                (if minN \<le> int (length m)
                    \<and> \<not> (AnnotationsIndicateNUMABinding (collaborators p) reqAnnotations
                          \<and> \<not> AnnotationsIndicateNUMAExclusive (collaborators p) reqAnnotations
                          \<and> 1 < int (length m))
                    \<and> (\<forall>n \<in> set m. \<exists>ns. indexNUMA machineState n = Some ns
                          \<and> \<not> (AnnotationsIndicateNUMAExclusive (collaborators p) reqAnnotations
                                \<and> 0 < card (AllocatedCPUSet ns)))
                    \<and> reqInt \<le> int (card (availableUnion p machineState m))
                 then [Some \<lparr>Nodes = MaskToUInt64Array m, Preferred = (int (length m) = minN)\<rparr>]
                 else [])))"
proof (intro conjI allI impI)
  assume "CheckNUMACrossSockets (machineInfo p) m = Inr True \<and> int (length m) \<le> nps"
  then have "maskHints p reqInt machineState reqAnnotations minN nps m = []"
    unfolding maskHints_eq[of p reqInt machineState reqAnnotations minN nps m] by simp
  then show "calculateHints_callback p reqInt machineState reqAnnotations minN nps (Some m) hints = Inr hints"
    by (rule callback_skips)
next
  fix hm l
  assume a: "calculateHints p reqInt machineState reqAnnotations = Inr hm
          \<and> NUMAsPerSocket (machineInfo p) = Inr nps
          \<and> subseq m (numaNodes machineState)
          \<and> CheckNUMACrossSockets (machineInfo p) m = Inr True \<and> int (length m) \<le> nps
          \<and> indexHints hm ResourceCPU = Some l"
  then obtain minN' nps' where
    nps': "NUMAsPerSocket (machineInfo p) = Inr nps'" and
    range: "list_all (\<lambda>i. 0 \<le> i \<and> i < 64) (numaNodes machineState)" and
    hm: "hm = [ResourceCPU \<mapsto> Some \<lparr>Hints = concat (map
           (maskHints p reqInt machineState reqAnnotations minN' nps')
           (allMasks (numaNodes machineState)))\<rparr>]"
    by (blast elim: calculateHints_Inr)
  from a nps' have [simp]: "nps' = nps" by simp
  from a have "maskHints p reqInt machineState reqAnnotations minN' nps m = []"
    unfolding maskHints_eq[of p reqInt machineState reqAnnotations minN' nps m] by simp
  moreover from a hm have "Hints l = concat (map
           (maskHints p reqInt machineState reqAnnotations minN' nps)
           (allMasks (numaNodes machineState)))"
    by (auto simp: indexHints_def)
  ultimately show "\<forall>h \<in> set (Hints l). GetNodes h \<noteq> MaskToUInt64Array m"
    using skipped_mask_not_emitted[OF range, of m p reqInt reqAnnotations minN' nps] a
    by auto
next
  fix crossSockets
  assume "CheckNUMACrossSockets (machineInfo p) m = Inr crossSockets \<and> nps < int (length m)"
  then show "calculateHints_callback p reqInt machineState reqAnnotations minN nps (Some m) hints =
              Inr (hints @
                (if minN \<le> int (length m)
                    \<and> \<not> (AnnotationsIndicateNUMABinding (collaborators p) reqAnnotations
                          \<and> \<not> AnnotationsIndicateNUMAExclusive (collaborators p) reqAnnotations
                          \<and> 1 < int (length m))
                    \<and> (\<forall>n \<in> set m. \<exists>ns. indexNUMA machineState n = Some ns
                          \<and> \<not> (AnnotationsIndicateNUMAExclusive (collaborators p) reqAnnotations
                                \<and> 0 < card (AllocatedCPUSet ns)))
                    \<and> reqInt \<le> int (card (availableUnion p machineState m))
                 then [Some \<lparr>Nodes = MaskToUInt64Array m, Preferred = (int (length m) = minN)\<rparr>]
                 else []))"
    unfolding callback_Some maskHints_eq[of p reqInt machineState reqAnnotations minN nps m]
    by simp
qed

theorem cross_socket_exclusion_witness:
  "CheckNUMACrossSockets (machineInfo examplePolicy) [0, 2] = Inr True
   \<and> int (length [0, 2 :: int]) \<le> 2
   \<and> 4 \<le> int (card (availableUnion examplePolicy exampleMachineState [0, 2]))
   \<and> calculateHints_callback examplePolicy 4 exampleMachineState Map.empty 1 2 (Some [0, 2]) [] = Inr []
   \<and> calculateHints examplePolicy 4 exampleMachineState Map.empty
     = Inr [ResourceCPU \<mapsto> Some \<lparr>Hints =
         [exampleHint [2] True, exampleHint [3] True, exampleHint [0, 1] False, exampleHint [2, 3] False,
          exampleHint [0, 1, 2] False, exampleHint [0, 1, 3] False, exampleHint [0, 2, 3] False,
          exampleHint [1, 2, 3] False, exampleHint [0, 1, 2, 3] False]\<rparr>]
   \<and> NUMAsPerSocket (machineInfo examplePolicy) = Inr 2
   \<and> subseq [0, 2] (numaNodes exampleMachineState)
   \<and> list_all (\<lambda>h. GetNodes h \<noteq> MaskToUInt64Array [0, 2])
         [exampleHint [2] True, exampleHint [3] True, exampleHint [0, 1] False, exampleHint [2, 3] False,
          exampleHint [0, 1, 2] False, exampleHint [0, 1, 3] False, exampleHint [0, 2, 3] False,
          exampleHint [1, 2, 3] False, exampleHint [0, 1, 2, 3] False]
   \<and> CheckNUMACrossSockets (machineInfo examplePolicy) [0, 1, 2] = Inr True
   \<and> 2 < int (length [0, 1, 2 :: int])
   \<and> calculateHints_callback examplePolicy 4 exampleMachineState Map.empty 1 2 (Some [0, 1, 2]) []
       = Inr [exampleHint [0, 1, 2] False]"
proof -
  let ?hs = "[exampleHint [2] True, exampleHint [3] True, exampleHint [0, 1] False, exampleHint [2, 3] False,
          exampleHint [0, 1, 2] False, exampleHint [0, 1, 3] False, exampleHint [0, 2, 3] False,
          exampleHint [1, 2, 3] False, exampleHint [0, 1, 2, 3] False]"
  have small: "CheckNUMACrossSockets (machineInfo examplePolicy) [0, 2] = Inr True"
      "int (length [0, 2 :: int]) \<le> 2"
    by (simp_all add: example_defs)
  have cap: "4 \<le> int (card (availableUnion examplePolicy exampleMachineState [0, 2]))"
    by (simp add: availableUnion_def eval_defs example_defs)
  have nps: "NUMAsPerSocket (machineInfo examplePolicy) = Inr 2"
    by (simp add: example_defs)
  have sub: "subseq [0, 2] (numaNodes exampleMachineState)"
    by (simp add: numaNodes_def example_defs)
  have idx: "indexHints [ResourceCPU \<mapsto> Some \<lparr>Hints = ?hs\<rparr>] ResourceCPU = Some \<lparr>Hints = ?hs\<rparr>"
    by (simp add: indexHints_def)
  have large: "CheckNUMACrossSockets (machineInfo examplePolicy) [0, 1, 2] = Inr True"
      "2 < int (length [0, 1, 2 :: int])"
    by (simp_all add: example_defs)
  note thm1 = cross_socket_exclusion[of examplePolicy "[0, 2]" 2 4 exampleMachineState Map.empty 1 "[]"]
  note thm2 = cross_socket_exclusion[of examplePolicy "[0, 1, 2]" 2 4 exampleMachineState Map.empty 1 "[]"]
  have skip: "calculateHints_callback examplePolicy 4 exampleMachineState Map.empty 1 2 (Some [0, 2]) [] = Inr []"
    by (rule thm1[THEN conjunct1, THEN mp]) (rule conjI[OF small])
  have "\<forall>h \<in> set (Hints \<lparr>Hints = ?hs\<rparr>). GetNodes h \<noteq> MaskToUInt64Array [0, 2]"
    by (rule thm1[THEN conjunct2, THEN conjunct1, THEN spec,
                  of "[ResourceCPU \<mapsto> Some \<lparr>Hints = ?hs\<rparr>]", THEN spec,
                  of "\<lparr>Hints = ?hs\<rparr>", THEN mp])
       (intro conjI example_calculateHints nps sub small idx)
  then have absent: "list_all (\<lambda>h. GetNodes h \<noteq> MaskToUInt64Array [0, 2]) ?hs"
    by (simp only: ListOfTopologyHints.select_convs list_all_iff)
  have "calculateHints_callback examplePolicy 4 exampleMachineState Map.empty 1 2 (Some [0, 1, 2]) [] =
      Inr ([] @
        (if (1::int) \<le> int (length [0, 1, 2 :: int])
            \<and> \<not> (AnnotationsIndicateNUMABinding (collaborators examplePolicy) Map.empty
                  \<and> \<not> AnnotationsIndicateNUMAExclusive (collaborators examplePolicy) Map.empty
                  \<and> 1 < int (length [0, 1, 2 :: int]))
            \<and> (\<forall>n \<in> set [0, 1, 2]. \<exists>ns. indexNUMA exampleMachineState n = Some ns
                  \<and> \<not> (AnnotationsIndicateNUMAExclusive (collaborators examplePolicy) Map.empty
                        \<and> 0 < card (AllocatedCPUSet ns)))
            \<and> 4 \<le> int (card (availableUnion examplePolicy exampleMachineState [0, 1, 2]))
         then [Some \<lparr>Nodes = MaskToUInt64Array [0, 1, 2], Preferred = (int (length [0, 1, 2 :: int]) = 1)\<rparr>]
         else []))"
    by (rule thm2[THEN conjunct2, THEN conjunct2, THEN spec, THEN mp]) (rule conjI[OF large])
  then have emit: "calculateHints_callback examplePolicy 4 exampleMachineState Map.empty 1 2 (Some [0, 1, 2]) []
       = Inr [exampleHint [0, 1, 2] False]"
    by (simp add: availableUnion_def eval_defs example_defs)
  from small cap skip example_calculateHints nps sub absent large emit show ?thesis
    by (intro conjI)
qed

text \<open>
  C7. For a request that declares NUMA binding and not NUMA exclusivity: when the minimum
  node count for the request exceeds one, \<open>calculateHints\<close> returns the error of the
  policy restriction; the callback skips every mask of more than one node; and every hint
  of a successful call has exactly one node.
\<close>

theorem non_exclusive_binding_single_node:
  assumes binding: "AnnotationsIndicateNUMABinding (collaborators p) reqAnnotations"
    and not_exclusive: "\<not> AnnotationsIndicateNUMAExclusive (collaborators p) reqAnnotations"
  shows "(\<forall>minN. GetNUMANodesCountToFitCPUReq (machineInfo p) reqInt = Inr minN \<and> 1 < minN
            \<longrightarrow> calculateHints p reqInt machineState reqAnnotations = Inl NotExclusiveLargerThanOneNUMA)
       \<and> (1 < int (length m)
            \<longrightarrow> calculateHints_callback p reqInt machineState reqAnnotations minN nps (Some m) hints
                = Inr hints)
       \<and> (\<forall>hm l. calculateHints p reqInt machineState reqAnnotations = Inr hm
              \<and> indexHints hm ResourceCPU = Some l
            \<longrightarrow> (\<forall>h \<in> set (Hints l). length (GetNodes h) = 1))"
proof (intro conjI allI impI)
  fix minN
  assume "GetNUMANodesCountToFitCPUReq (machineInfo p) reqInt = Inr minN \<and> 1 < minN"
  then show "calculateHints p reqInt machineState reqAnnotations = Inl NotExclusiveLargerThanOneNUMA"
    using binding not_exclusive by (simp add: calculateHints_eq)
next
  assume "1 < int (length m)"
  then have "maskHints p reqInt machineState reqAnnotations minN nps m = []"
    unfolding maskHints_eq[of p reqInt machineState reqAnnotations minN nps m]
    using binding not_exclusive by simp
  then show "calculateHints_callback p reqInt machineState reqAnnotations minN nps (Some m) hints
                = Inr hints"
    by (rule callback_skips)
next
  fix hm l
  assume a: "calculateHints p reqInt machineState reqAnnotations = Inr hm
              \<and> indexHints hm ResourceCPU = Some l"
  then obtain minN' nps' where
    hm: "hm = [ResourceCPU \<mapsto> Some \<lparr>Hints = concat (map
           (maskHints p reqInt machineState reqAnnotations minN' nps')
           (allMasks (numaNodes machineState)))\<rparr>]"
    by (blast elim: calculateHints_Inr)
  with a have l: "Hints l = concat (map
           (maskHints p reqInt machineState reqAnnotations minN' nps')
           (allMasks (numaNodes machineState)))"
    by (auto simp: indexHints_def)
  show "\<forall>h \<in> set (Hints l). length (GetNodes h) = 1"
  proof
    fix h
    assume "h \<in> set (Hints l)"
    then obtain m' where m': "m' \<noteq> []"
      "h = Some \<lparr>Nodes = MaskToUInt64Array m', Preferred = (int (length m') = minN')\<rparr>"
      "maskHints p reqInt machineState reqAnnotations minN' nps' m' =
         [Some \<lparr>Nodes = MaskToUInt64Array m', Preferred = (int (length m') = minN')\<rparr>]"
      unfolding l by (rule hint_of_mask)
    from m'(3) have "\<not> 1 < int (length m')"
      unfolding maskHints_eq[of p reqInt machineState reqAnnotations minN' nps' m']
      using binding not_exclusive by (auto split: if_splits)
    with m'(1) have "length m' = 1"
      by (cases m') auto
    with m'(2) show "length (GetNodes h) = 1"
      by (simp add: GetNodes_def length_MaskToUInt64Array)
  qed
qed

theorem non_exclusive_binding_single_node_witness:
  "AnnotationsIndicateNUMABinding (collaborators examplePolicy) [''numa_binding'' \<mapsto> ''true'']
   \<and> \<not> AnnotationsIndicateNUMAExclusive (collaborators examplePolicy) [''numa_binding'' \<mapsto> ''true'']
   \<and> GetNUMANodesCountToFitCPUReq (machineInfo examplePolicy) 8 = Inr 2
   \<and> calculateHints examplePolicy 8 exampleMachineState [''numa_binding'' \<mapsto> ''true'']
       = Inl NotExclusiveLargerThanOneNUMA
   \<and> calculateHints_callback examplePolicy 3 exampleMachineState [''numa_binding'' \<mapsto> ''true'']
         1 2 (Some [0, 1]) [] = Inr []
   \<and> calculateHints examplePolicy 3 exampleMachineState [''numa_binding'' \<mapsto> ''true'']
       = Inr [ResourceCPU \<mapsto> Some \<lparr>Hints =
           [exampleHint [0] True, exampleHint [2] True, exampleHint [3] True]\<rparr>]
   \<and> list_all (\<lambda>h. length (GetNodes h) = 1)
        [exampleHint [0] True, exampleHint [2] True, exampleHint [3] True]"
proof -
  let ?ann = "[''numa_binding'' \<mapsto> ''true'']"
  let ?hs = "[exampleHint [0] True, exampleHint [2] True, exampleHint [3] True]"
  have b: "AnnotationsIndicateNUMABinding (collaborators examplePolicy) ?ann"
    by (simp add: example_defs indexString_def)
  have e: "\<not> AnnotationsIndicateNUMAExclusive (collaborators examplePolicy) ?ann"
    by (simp add: example_defs indexString_def)
  have min8: "GetNUMANodesCountToFitCPUReq (machineInfo examplePolicy) 8 = Inr 2 \<and> (1::int) < 2"
    by (simp add: example_defs)
  have len: "1 < int (length [0, 1 :: int])"
    by simp
  have idx: "indexHints [ResourceCPU \<mapsto> Some \<lparr>Hints = ?hs\<rparr>] ResourceCPU = Some \<lparr>Hints = ?hs\<rparr>"
    by (simp add: indexHints_def)
  note thm8 = non_exclusive_binding_single_node[OF b e, of 8 exampleMachineState "[0, 1]" 1 2 "[]"]
  note thm3 = non_exclusive_binding_single_node[OF b e, of 3 exampleMachineState "[0, 1]" 1 2 "[]"]
  have err: "calculateHints examplePolicy 8 exampleMachineState ?ann = Inl NotExclusiveLargerThanOneNUMA"
    by (rule thm8[THEN conjunct1, THEN spec, of 2, THEN mp]) (rule min8)
  have skip: "calculateHints_callback examplePolicy 3 exampleMachineState ?ann 1 2 (Some [0, 1]) [] = Inr []"
    by (rule thm3[THEN conjunct2, THEN conjunct1, THEN mp]) (rule len)
  have "\<forall>h \<in> set (Hints \<lparr>Hints = ?hs\<rparr>). length (GetNodes h) = 1"
    by (rule thm3[THEN conjunct2, THEN conjunct2, THEN spec,
                  of "[ResourceCPU \<mapsto> Some \<lparr>Hints = ?hs\<rparr>]", THEN spec,
                  of "\<lparr>Hints = ?hs\<rparr>", THEN mp])
       (intro conjI binding_calculateHints idx)
  then have single: "list_all (\<lambda>h. length (GetNodes h) = 1) ?hs"
    by (simp only: ListOfTopologyHints.select_convs list_all_iff)
  from b e min8[THEN conjunct1] err skip binding_calculateHints single show ?thesis
    by (intro conjI)
qed

text \<open>
  C1, as the code has it. When the two topology lookups before the enumeration succeed,
  the policy restriction does not apply and every node ID fits a mask, \<open>calculateHints\<close>
  returns a hint list and no error, whatever the snapshot holds: a mask with a node that
  has no state, or for which the cross-socket check fails, is skipped by the callback and
  is the node set of no returned hint, just as a mask with too few available CPUs or one
  that crosses sockets within the size of a socket.
\<close>

theorem nil_state_or_failed_lookup_skips_the_mask:
  assumes "GetNUMANodesCountToFitCPUReq (machineInfo p) reqInt = Inr minN"
    and "\<not> (AnnotationsIndicateNUMABinding (collaborators p) reqAnnotations
            \<and> \<not> AnnotationsIndicateNUMAExclusive (collaborators p) reqAnnotations \<and> 1 < minN)"
    and "NUMAsPerSocket (machineInfo p) = Inr nps"
    and range: "list_all (\<lambda>i. 0 \<le> i \<and> i < 64) (numaNodes machineState)"
  shows "\<exists>hints. calculateHints p reqInt machineState reqAnnotations
                  = Inr [ResourceCPU \<mapsto> Some \<lparr>Hints = hints\<rparr>]
      \<and> (\<forall>m. subseq m (numaNodes machineState)
              \<and> ((\<exists>n \<in> set m. indexNUMA machineState n = None)
                   \<or> (\<exists>err. CheckNUMACrossSockets (machineInfo p) m = Inl err)
                   \<or> int (card (availableUnion p machineState m)) < reqInt
                   \<or> (CheckNUMACrossSockets (machineInfo p) m = Inr True \<and> int (length m) \<le> nps))
            \<longrightarrow> (\<forall>hs. calculateHints_callback p reqInt machineState reqAnnotations minN nps (Some m) hs
                        = Inr hs)
                \<and> (\<forall>h \<in> set hints. GetNodes h \<noteq> MaskToUInt64Array m))"
proof -
  let ?hints = "concat (map (maskHints p reqInt machineState reqAnnotations minN nps)
                  (allMasks (numaNodes machineState)))"
  have res: "calculateHints p reqInt machineState reqAnnotations
               = Inr [ResourceCPU \<mapsto> Some \<lparr>Hints = ?hints\<rparr>]"
    using assms by (simp add: calculateHints_eq)
  have skip: "(\<forall>hs. calculateHints_callback p reqInt machineState reqAnnotations minN nps (Some m) hs
                        = Inr hs)
                \<and> (\<forall>h \<in> set ?hints. GetNodes h \<noteq> MaskToUInt64Array m)"
    if m: "subseq m (numaNodes machineState)"
      and bad: "(\<exists>n \<in> set m. indexNUMA machineState n = None)
                   \<or> (\<exists>err. CheckNUMACrossSockets (machineInfo p) m = Inl err)
                   \<or> int (card (availableUnion p machineState m)) < reqInt
                   \<or> (CheckNUMACrossSockets (machineInfo p) m = Inr True \<and> int (length m) \<le> nps)" for m
  proof -
    from bad have empty: "maskHints p reqInt machineState reqAnnotations minN nps m = []"
      by (auto intro: maskHints_nil_state maskHints_lookup_failed maskHints_too_small
            maskHints_crosses_sockets)
    show ?thesis
      using callback_skips[OF empty] skipped_mask_not_emitted[OF range m empty] by blast
  qed
  show ?thesis
    by (intro exI[of _ ?hints] conjI res allI impI) (use skip in blast)+
qed

theorem nil_state_or_failed_lookup_skips_the_mask_witness:
  "GetNUMANodesCountToFitCPUReq (machineInfo examplePolicy) 3 = Inr 1
   \<and> \<not> (AnnotationsIndicateNUMABinding (collaborators examplePolicy) Map.empty
        \<and> \<not> AnnotationsIndicateNUMAExclusive (collaborators examplePolicy) Map.empty \<and> (1::int) < 1)
   \<and> NUMAsPerSocket (machineInfo examplePolicy) = Inr 2
   \<and> list_all (\<lambda>i. 0 \<le> i \<and> i < 64) (numaNodes staleMachineState)
   \<and> calculateHints examplePolicy 3 staleMachineState Map.empty
       = Inr [ResourceCPU \<mapsto> Some \<lparr>Hints = [exampleHint [0] True]\<rparr>]
   \<and> (\<exists>hints. calculateHints examplePolicy 3 staleMachineState Map.empty
                  = Inr [ResourceCPU \<mapsto> Some \<lparr>Hints = hints\<rparr>]
      \<and> (\<forall>m. subseq m (numaNodes staleMachineState)
              \<and> ((\<exists>n \<in> set m. indexNUMA staleMachineState n = None)
                   \<or> (\<exists>err. CheckNUMACrossSockets (machineInfo examplePolicy) m = Inl err)
                   \<or> int (card (availableUnion examplePolicy staleMachineState m)) < 3
                   \<or> (CheckNUMACrossSockets (machineInfo examplePolicy) m = Inr True
                        \<and> int (length m) \<le> 2))
            \<longrightarrow> (\<forall>hs. calculateHints_callback examplePolicy 3 staleMachineState Map.empty 1 2 (Some m) hs
                        = Inr hs)
                \<and> (\<forall>h \<in> set hints. GetNodes h \<noteq> MaskToUInt64Array m)))"
proof -
  have h1: "GetNUMANodesCountToFitCPUReq (machineInfo examplePolicy) 3 = Inr 1"
    by (simp add: example_defs)
  have h2: "\<not> (AnnotationsIndicateNUMABinding (collaborators examplePolicy) Map.empty
        \<and> \<not> AnnotationsIndicateNUMAExclusive (collaborators examplePolicy) Map.empty \<and> (1::int) < 1)"
    by simp
  have h3: "NUMAsPerSocket (machineInfo examplePolicy) = Inr 2"
    by (simp add: example_defs)
  have h4: "list_all (\<lambda>i. 0 \<le> i \<and> i < 64) (numaNodes staleMachineState)"
    by (simp add: numaNodes_def example_defs)
  from h1 h2 h3 h4 stale_calculateHints
    nil_state_or_failed_lookup_skips_the_mask[OF h1 h2 h3 h4]
  show ?thesis by (intro conjI)
qed

text \<open>
  C1 as the spec states it fails on the stale snapshot: node 1 has no state and the
  cross-socket lookup fails for node 5, both in enumerated masks, and the call returns a
  hint list and no error.
\<close>

theorem hard_failure_on_nil_state_counterexample:
  "indexNUMA staleMachineState 1 = None
   \<and> [1] \<in> set (allMasks (numaNodes staleMachineState))
   \<and> CheckNUMACrossSockets (machineInfo examplePolicy) [5] = Inl (External ''unknown NUMA node'')
   \<and> [5] \<in> set (allMasks (numaNodes staleMachineState))
   \<and> calculateHints examplePolicy 3 staleMachineState Map.empty
       = Inr [ResourceCPU \<mapsto> Some \<lparr>Hints = [exampleHint [0] True]\<rparr>]"
proof -
  have "numaNodes staleMachineState = [0, 1, 5]"
    by (simp add: numaNodes_def example_defs)
  then have "[1] \<in> set (allMasks (numaNodes staleMachineState))"
      "[5] \<in> set (allMasks (numaNodes staleMachineState))"
    by (simp_all add: mem_allMasks)
  moreover have "indexNUMA staleMachineState 1 = None"
    by (simp add: indexNUMA_def example_defs)
  moreover have "CheckNUMACrossSockets (machineInfo examplePolicy) [5] = Inl (External ''unknown NUMA node'')"
    by (simp add: example_defs)
  ultimately show ?thesis
    using stale_calculateHints by (intro conjI)
qed

subsection \<open>Claims about the pre-filter\<close>

lemma exclusive_calculateHints:
  "calculateHints examplePolicy 3 exampleMachineState
       [''numa_binding'' \<mapsto> ''true'', ''numa_exclusive'' \<mapsto> ''true'']
     = Inr [ResourceCPU \<mapsto> Some \<lparr>Hints =
         [exampleHint [0] True, exampleHint [2] True, exampleHint [3] True,
          exampleHint [2, 3] False, exampleHint [0, 2, 3] False]\<rparr>]"
  by (simp add: eval_defs example_defs eval_nat_numeral upt_rec)

text \<open>
  C3. For a request whose annotations enable NUMA exclusivity, \<open>prePodAffinityFilter\<close>
  never returns a filter state. When the affinity annotations parse and declare no
  affinity, it returns neither state nor error, and the handler packs the hints it has
  (those of \<open>calculateHints\<close> when there is no allocation record and no extra state file)
  without filtering them. When they declare an affinity, it returns the error of the
  exclusive case; when they do not parse, the error of the parser.
\<close>

theorem exclusive_request_skips_affinity_filter:
  assumes "indexString (ResourceRequest.Annotations r)
             (PodAnnotationMemoryEnhancementNumaExclusive (apiConsts p))
           = PodAnnotationMemoryEnhancementNumaExclusiveEnable (apiConsts p)"
  shows "(\<forall>st. prePodAffinityFilter p (Some r) \<noteq> Inr (Some st))
     \<and> (\<forall>podAffinity.
           UnmarshalAffinity (collaborators p) (ResourceRequest.Annotations r) = Inr podAffinity
           \<and> Affinity podAffinity = None
         \<longrightarrow> prePodAffinityFilter p (Some r) = Inr None
             \<and> (\<forall>hints. ContainerType r \<noteq> SIDECAR
                    \<and> dedicatedCoresWithNUMABindingHints p r = Inr hints
                  \<longrightarrow> dedicatedCoresWithNUMABindingHintHandler p (Some r)
                      = PackResourceHintsResponse (collaborators p) (Some r) ResourceCPU hints))
     \<and> (\<forall>podAffinity.
           UnmarshalAffinity (collaborators p) (ResourceRequest.Annotations r) = Inr podAffinity
           \<and> Affinity podAffinity \<noteq> None
         \<longrightarrow> prePodAffinityFilter p (Some r) = Inl ExclusiveWithAffinity)
     \<and> (\<forall>err. UnmarshalAffinity (collaborators p) (ResourceRequest.Annotations r) = Inl err
         \<longrightarrow> prePodAffinityFilter p (Some r) = Inl err)
     \<and> (\<forall>reqInt hints.
           GetQuantityFromResourceReq (collaborators p) r = Inr reqInt
           \<and> GetAllocationInfo (state p) (PodUid r) (ContainerName r) = None
           \<and> fst (GetHintsFromExtraStateFile (collaborators p) (PodName r) ResourceCPU
                    (extraStateFileAbsPath p)
                    (GetFilteredNUMASet (collaborators p) (GetMachineState (state p)))) = None
           \<and> calculateHints p reqInt (GetMachineState (state p)) (ResourceRequest.Annotations r)
               = Inr hints
         \<longrightarrow> dedicatedCoresWithNUMABindingHints p r = Inr hints)"
proof -
  have pre: "prePodAffinityFilter p (Some r) =
      (case UnmarshalAffinity (collaborators p) (ResourceRequest.Annotations r) of
         Inl err \<Rightarrow> Inl err
       | Inr podAffinity \<Rightarrow>
           if Affinity podAffinity \<noteq> None then Inl ExclusiveWithAffinity else Inr None)"
    using assms by (simp add: prePodAffinityFilter_def split: sum.split)
  have no_state: "\<forall>st. prePodAffinityFilter p (Some r) \<noteq> Inr (Some st)"
    unfolding pre by (simp split: sum.split)
  have unfiltered: "prePodAffinityFilter p (Some r) = Inr None
             \<and> (\<forall>hints. ContainerType r \<noteq> SIDECAR
                    \<and> dedicatedCoresWithNUMABindingHints p r = Inr hints
                  \<longrightarrow> dedicatedCoresWithNUMABindingHintHandler p (Some r)
                      = PackResourceHintsResponse (collaborators p) (Some r) ResourceCPU hints)"
    if "UnmarshalAffinity (collaborators p) (ResourceRequest.Annotations r) = Inr podAffinity
           \<and> Affinity podAffinity = None" for podAffinity
  proof -
    from that have none: "prePodAffinityFilter p (Some r) = Inr None"
      unfolding pre by simp
    then show ?thesis
      by (simp add: dedicatedCoresWithNUMABindingHintHandler_def)
  qed
  have declared: "prePodAffinityFilter p (Some r) = Inl ExclusiveWithAffinity"
    if "UnmarshalAffinity (collaborators p) (ResourceRequest.Annotations r) = Inr podAffinity
           \<and> Affinity podAffinity \<noteq> None" for podAffinity
    using that unfolding pre by simp
  have unparsed: "prePodAffinityFilter p (Some r) = Inl err"
    if "UnmarshalAffinity (collaborators p) (ResourceRequest.Annotations r) = Inl err" for err
    using that unfolding pre by simp
  have calculated: "dedicatedCoresWithNUMABindingHints p r = Inr hints"
    if "GetQuantityFromResourceReq (collaborators p) r = Inr reqInt
           \<and> GetAllocationInfo (state p) (PodUid r) (ContainerName r) = None
           \<and> fst (GetHintsFromExtraStateFile (collaborators p) (PodName r) ResourceCPU
                    (extraStateFileAbsPath p)
                    (GetFilteredNUMASet (collaborators p) (GetMachineState (state p)))) = None
           \<and> calculateHints p reqInt (GetMachineState (state p)) (ResourceRequest.Annotations r)
               = Inr hints" for reqInt hints
    using that by (simp add: dedicatedCoresWithNUMABindingHints_def)
  show ?thesis
  proof (intro conjI)
    show "\<forall>st. prePodAffinityFilter p (Some r) \<noteq> Inr (Some st)"
      by (rule no_state)
  qed (intro allI impI unfiltered declared unparsed calculated; assumption)+
qed

theorem exclusive_request_skips_affinity_filter_witness:
  "indexString (ResourceRequest.Annotations
        (exampleRequest [''numa_binding'' \<mapsto> ''true'', ''numa_exclusive'' \<mapsto> ''true'']))
      (PodAnnotationMemoryEnhancementNumaExclusive (apiConsts examplePolicy))
     = PodAnnotationMemoryEnhancementNumaExclusiveEnable (apiConsts examplePolicy)
   \<and> UnmarshalAffinity (collaborators examplePolicy)
        (ResourceRequest.Annotations
          (exampleRequest [''numa_binding'' \<mapsto> ''true'', ''numa_exclusive'' \<mapsto> ''true'']))
       = Inr \<lparr>Affinity = None, AntiAffinity = Some []\<rparr>
   \<and> prePodAffinityFilter examplePolicy
        (Some (exampleRequest [''numa_binding'' \<mapsto> ''true'', ''numa_exclusive'' \<mapsto> ''true'']))
       = Inr None
   \<and> dedicatedCoresWithNUMABindingHintHandler examplePolicy
        (Some (exampleRequest [''numa_binding'' \<mapsto> ''true'', ''numa_exclusive'' \<mapsto> ''true'']))
       = (Some \<lparr>Request = exampleRequest [''numa_binding'' \<mapsto> ''true'', ''numa_exclusive'' \<mapsto> ''true''],
                ResourceName = ResourceCPU,
                ResourceHints = [ResourceCPU \<mapsto> Some \<lparr>Hints =
                   [exampleHint [0] True, exampleHint [2] True, exampleHint [3] True,
                    exampleHint [2, 3] False, exampleHint [0, 2, 3] False]\<rparr>]\<rparr>,
          None)
   \<and> indexString (ResourceRequest.Annotations
        (exampleRequest [''numa_exclusive'' \<mapsto> ''true'', ''affinity'' \<mapsto> ''db'']))
      (PodAnnotationMemoryEnhancementNumaExclusive (apiConsts examplePolicy))
     = PodAnnotationMemoryEnhancementNumaExclusiveEnable (apiConsts examplePolicy)
   \<and> prePodAffinityFilter examplePolicy
        (Some (exampleRequest [''numa_exclusive'' \<mapsto> ''true'', ''affinity'' \<mapsto> ''db'']))
       = Inl ExclusiveWithAffinity
   \<and> indexString (ResourceRequest.Annotations
        (exampleRequest [''numa_exclusive'' \<mapsto> ''true'', ''anti_affinity'' \<mapsto> ''db'']))
      (PodAnnotationMemoryEnhancementNumaExclusive (apiConsts examplePolicy))
     = PodAnnotationMemoryEnhancementNumaExclusiveEnable (apiConsts examplePolicy)
   \<and> prePodAffinityFilter examplePolicy
        (Some (exampleRequest [''numa_exclusive'' \<mapsto> ''true'', ''anti_affinity'' \<mapsto> ''db'']))
       = Inr None"
proof -
  let ?ann = "[''numa_binding'' \<mapsto> ''true'', ''numa_exclusive'' \<mapsto> ''true'']"
  let ?r = "exampleRequest ?ann"
  let ?hm = "[ResourceCPU \<mapsto> Some \<lparr>Hints =
                   [exampleHint [0] True, exampleHint [2] True, exampleHint [3] True,
                    exampleHint [2, 3] False, exampleHint [0, 2, 3] False]\<rparr>]"
  let ?r' = "exampleRequest [''numa_exclusive'' \<mapsto> ''true'', ''affinity'' \<mapsto> ''db'']"
  have excl: "indexString (ResourceRequest.Annotations ?r)
      (PodAnnotationMemoryEnhancementNumaExclusive (apiConsts examplePolicy))
     = PodAnnotationMemoryEnhancementNumaExclusiveEnable (apiConsts examplePolicy)"
    by (simp add: example_defs indexString_def)
  have excl': "indexString (ResourceRequest.Annotations ?r')
      (PodAnnotationMemoryEnhancementNumaExclusive (apiConsts examplePolicy))
     = PodAnnotationMemoryEnhancementNumaExclusiveEnable (apiConsts examplePolicy)"
    by (simp add: example_defs indexString_def)
  have parsed: "UnmarshalAffinity (collaborators examplePolicy) (ResourceRequest.Annotations ?r)
       = Inr \<lparr>Affinity = None, AntiAffinity = Some []\<rparr>"
    by (simp add: example_defs)
  have parsed': "UnmarshalAffinity (collaborators examplePolicy) (ResourceRequest.Annotations ?r')
       = Inr \<lparr>Affinity = Some [\<lparr>MatchLabels = [(''app'', ''db'')], Zone = ''numa''\<rparr>],
               AntiAffinity = Some []\<rparr>"
    by (simp add: example_defs)
  have calc: "GetQuantityFromResourceReq (collaborators examplePolicy) ?r = Inr 3
           \<and> GetAllocationInfo (state examplePolicy) (PodUid ?r) (ContainerName ?r) = None
           \<and> fst (GetHintsFromExtraStateFile (collaborators examplePolicy) (PodName ?r) ResourceCPU
                    (extraStateFileAbsPath examplePolicy)
                    (GetFilteredNUMASet (collaborators examplePolicy)
                      (GetMachineState (state examplePolicy)))) = None
           \<and> calculateHints examplePolicy 3 (GetMachineState (state examplePolicy))
               (ResourceRequest.Annotations ?r) = Inr ?hm"
  proof (intro conjI)
    have "GetMachineState (state examplePolicy) = exampleMachineState"
        "ResourceRequest.Annotations ?r = ?ann"
      by (simp_all add: examplePolicy_def exampleRequest_def)
    then show "calculateHints examplePolicy 3 (GetMachineState (state examplePolicy))
               (ResourceRequest.Annotations ?r) = Inr ?hm"
      by (simp only: exclusive_calculateHints)
  qed (simp_all add: example_defs)
  have main: "ContainerType ?r \<noteq> SIDECAR"
    by (simp add: exampleRequest_def)
  note inst = exclusive_request_skips_affinity_filter[OF excl]
  note inst' = exclusive_request_skips_affinity_filter[OF excl']
  have hints: "dedicatedCoresWithNUMABindingHints examplePolicy ?r = Inr ?hm"
    by (rule inst[THEN conjunct2, THEN conjunct2, THEN conjunct2, THEN conjunct2,
                 THEN spec, of 3, THEN spec, of ?hm, THEN mp]) (rule calc)
  have step: "prePodAffinityFilter examplePolicy (Some ?r) = Inr None
             \<and> (\<forall>hints. ContainerType ?r \<noteq> SIDECAR
                    \<and> dedicatedCoresWithNUMABindingHints examplePolicy ?r = Inr hints
                  \<longrightarrow> dedicatedCoresWithNUMABindingHintHandler examplePolicy (Some ?r)
                      = PackResourceHintsResponse (collaborators examplePolicy) (Some ?r) ResourceCPU hints)"
    by (rule inst[THEN conjunct2, THEN conjunct1, THEN spec,
                 of "\<lparr>Affinity = None, AntiAffinity = Some []\<rparr>", THEN mp])
       (simp add: parsed)
  have "dedicatedCoresWithNUMABindingHintHandler examplePolicy (Some ?r)
          = PackResourceHintsResponse (collaborators examplePolicy) (Some ?r) ResourceCPU ?hm"
    by (rule step[THEN conjunct2, THEN spec, of ?hm, THEN mp]) (intro conjI main hints)
  then have packed: "dedicatedCoresWithNUMABindingHintHandler examplePolicy (Some ?r)
          = (Some \<lparr>Request = ?r, ResourceName = ResourceCPU, ResourceHints = ?hm\<rparr>, None)"
    by (simp add: examplePolicy_def exampleCollaborators_def)
  have err: "prePodAffinityFilter examplePolicy (Some ?r') = Inl ExclusiveWithAffinity"
    by (rule inst'[THEN conjunct2, THEN conjunct2, THEN conjunct1, THEN spec,
                 of "\<lparr>Affinity = Some [\<lparr>MatchLabels = [(''app'', ''db'')], Zone = ''numa''\<rparr>],
                      AntiAffinity = Some []\<rparr>", THEN mp])
       (simp add: parsed')
  let ?r'' = "exampleRequest [''numa_exclusive'' \<mapsto> ''true'', ''anti_affinity'' \<mapsto> ''db'']"
  have excl'': "indexString (ResourceRequest.Annotations ?r'')
      (PodAnnotationMemoryEnhancementNumaExclusive (apiConsts examplePolicy))
     = PodAnnotationMemoryEnhancementNumaExclusiveEnable (apiConsts examplePolicy)"
    by (simp add: example_defs indexString_def)
  have parsed'': "UnmarshalAffinity (collaborators examplePolicy) (ResourceRequest.Annotations ?r'')
       = Inr \<lparr>Affinity = None,
               AntiAffinity = Some [\<lparr>MatchLabels = [(''app'', ''db'')], Zone = ''numa''\<rparr>]\<rparr>"
    by (simp add: example_defs)
  have anti: "prePodAffinityFilter examplePolicy (Some ?r'') = Inr None"
    by (rule exclusive_request_skips_affinity_filter[OF excl'', THEN conjunct2, THEN conjunct1,
          THEN spec,
          of "\<lparr>Affinity = None,
               AntiAffinity = Some [\<lparr>MatchLabels = [(''app'', ''db'')], Zone = ''numa''\<rparr>]\<rparr>",
          THEN mp, THEN conjunct1])
       (simp add: parsed'')
  from excl parsed step[THEN conjunct1] packed excl' err excl'' anti show ?thesis
    by (intro conjI)
qed

subsection \<open>Claims about the affinity info collector\<close>

lemma upto_0_3: "[0..(3::int)] = [0, 1, 2, 3]"
  by (simp add: upto.simps)

lemma upto_0_4: "[0..(4::int)] = [0, 1, 2, 3, 4]"
  by (simp add: upto.simps)

lemma example_getNumaNodesAffinityInfo:
  "case getNumaNodesAffinityInfo examplePolicy of
     Inl e \<Rightarrow> False
   | Inr infos \<Rightarrow>
       map numaID infos = [0, 1, 2, 3]
       \<and> map socketID infos = [0, 0, 1, 1]
       \<and> map (\<lambda>info. indexValues (numaInfo.labels info) ''app'') infos = [[], [''db'', ''batch''], [], []]
       \<and> map (\<lambda>info. indexValues (numaInfo.labels info) ''tier'') infos = [[], [], [], []]
       \<and> map numaInfo.AntiAffinityRequiredSelectors infos
           = [[], [\<lparr>MatchLabels = [(''app'', ''web'')], Zone = ''numa''\<rparr>], [], []]"
  by (simp add: getNumaNodesAffinityInfo_def upto_0_3 MergeNumaInfoMap_def indexValues_def
        Let_def eval_defs example_defs)

lemma fiveNode_getNumaNodesAffinityInfo:
  "getNumaNodesAffinityInfo fiveNodePolicy = Inl (SocketNotFound 4)"
  by (simp add: getNumaNodesAffinityInfo_def upto_0_4 MergeNumaInfoMap_def indexValues_def
        Let_def eval_defs example_defs)

lemma unparsed_getNumaNodesAffinityInfo:
  "getNumaNodesAffinityInfo unparsedPolicy = Inl UnmarshalAffinityFailed"
  by (simp add: getNumaNodesAffinityInfo_def upto_0_3 MergeNumaInfoMap_def indexValues_def
        Let_def eval_defs example_defs)

lemma fiveNode_visitsNoNil: "visitsNoNil fiveNodePolicy"
  by (simp add: visitsNoNil_def entryNotNil_def firstEntries_def upto_0_4
        eval_defs example_defs)

lemma unparsed_visitsNoNil: "visitsNoNil unparsedPolicy"
  by (simp add: visitsNoNil_def entryNotNil_def firstEntries_def upto_0_3
        eval_defs example_defs)

text \<open>
  C8, as the code has it. A successful call returns one record per node index below
  \<open>NumNUMANodes\<close>, in order, with the node's index, the first socket of the node, the
  labels of the entry visited first of each pod on the node (label key to the distinct
  values) and the anti-affinity selectors parsed from those same entries, in the order of
  the pods. The code panics where it dereferences \<^verbatim>\<open>nil\<close>: a node without state, a
  first entry that is \<^verbatim>\<open>nil\<close>, a parsed affinity without anti-affinity part. When
  there is none of these (\<open>visitsNoNil\<close>) the call does not panic, and it returns an
  error, one of the two the function has, whenever a node has no socket or such a first
  entry carries the anti-affinity annotation and does not parse.
\<close>

theorem collector_reads_first_entry_of_each_pod:
  "(\<forall>infos. getNumaNodesAffinityInfo p = Inr infos \<longrightarrow>
      length infos = nat (NumNUMANodes (machineInfo p))
      \<and> (\<forall>i. 0 \<le> i \<and> i < NumNUMANodes (machineInfo p) \<longrightarrow>
           (\<exists>socket sockets numaState.
              SocketsInNUMANodes (machineInfo p) i = socket # sockets
              \<and> indexNUMA (GetMachineState (state p)) i = Some numaState
              \<and> numaID (infos ! nat i) = i
              \<and> socketID (infos ! nat i) = socket
              \<and> (\<forall>k v. v \<in> set (indexValues (numaInfo.labels (infos ! nat i)) k)
                    \<longleftrightarrow> (\<exists>ai. Some ai \<in> set (firstEntries (PodEntries numaState))
                              \<and> AllocationInfo.Labels ai k = Some v))
              \<and> (\<forall>k. distinct (indexValues (numaInfo.labels (infos ! nat i)) k))
              \<and> numaInfo.AntiAffinityRequiredSelectors (infos ! nat i)
                  = concat (map (entrySelectors p) (firstEntries (PodEntries numaState))))))
   \<and> (visitsNoNil p
        \<and> (\<exists>i. 0 \<le> i \<and> i < NumNUMANodes (machineInfo p)
               \<and> SocketsInNUMANodes (machineInfo p) i = [])
         \<longrightarrow> (\<exists>e. getNumaNodesAffinityInfo p = Inl e
                \<and> (e = UnmarshalAffinityFailed
                     \<or> (\<exists>j. 0 \<le> j \<and> j < NumNUMANodes (machineInfo p)
                            \<and> e = SocketNotFound j
                            \<and> SocketsInNUMANodes (machineInfo p) j = []))))
   \<and> (visitsNoNil p
        \<and> (\<exists>i numaState ai err. 0 \<le> i \<and> i < NumNUMANodes (machineInfo p)
               \<and> indexNUMA (GetMachineState (state p)) i = Some numaState
               \<and> Some ai \<in> set (firstEntries (PodEntries numaState))
               \<and> indexString (AllocationInfo.Annotations ai)
                    (PodAnnotationMicroTopologyInterPodAntiAffinity (apiConsts p)) \<noteq> []
               \<and> UnmarshalAffinity (collaborators p) (AllocationInfo.Annotations ai) = Inl err)
         \<longrightarrow> (\<exists>e. getNumaNodesAffinityInfo p = Inl e
                \<and> (e = UnmarshalAffinityFailed
                     \<or> (\<exists>j. 0 \<le> j \<and> j < NumNUMANodes (machineInfo p)
                            \<and> e = SocketNotFound j
                            \<and> SocketsInNUMANodes (machineInfo p) j = []))))
   \<and> (\<forall>e. getNumaNodesAffinityInfo p = Inl e \<longrightarrow>
         e = Panic \<or> e = UnmarshalAffinityFailed
         \<or> (\<exists>i. 0 \<le> i \<and> i < NumNUMANodes (machineInfo p)
                \<and> e = SocketNotFound i \<and> SocketsInNUMANodes (machineInfo p) i = []))
   \<and> (visitsNoNil p \<longrightarrow> getNumaNodesAffinityInfo p \<noteq> Inl Panic)"
  (is "?C1 \<and> ?C2 \<and> ?C3 \<and> ?C4 \<and> ?C5")
proof -
  let ?n = "NumNUMANodes (machineInfo p)"
  let ?P = "\<lambda>i info. \<exists>socket sockets numaState.
           SocketsInNUMANodes (machineInfo p) i = socket # sockets
           \<and> indexNUMA (GetMachineState (state p)) i = Some numaState
           \<and> list_all (entryReadable p) (firstEntries (PodEntries numaState))
           \<and> info = \<lparr>numaInfo.labels = fold mergeEntryLabels (firstEntries (PodEntries numaState)) Map.empty,
                      socketID = socket, numaID = i,
                      numaInfo.AntiAffinityRequiredSelectors =
                        concat (map (entrySelectors p) (firstEntries (PodEntries numaState)))\<rparr>"
  have nodes: "length infos = nat ?n \<and> (\<forall>i. 0 \<le> i \<and> i < ?n \<longrightarrow> ?P i (infos ! nat i))"
    if "getNumaNodesAffinityInfo p = Inr infos" for infos
  proof -
    from that have la: "list_all2 ?P [0..?n - 1] infos"
      using getNumaNodesAffinityInfo_loop_Inr[of p "[0..?n - 1]" "[]" infos]
      by (simp add: getNumaNodesAffinityInfo_def)
    have len: "length [0..?n - 1] = length infos"
      by (rule list_all2_lengthD[OF la])
    have nth: "?P ([0..?n - 1] ! j) (infos ! j)" if "j < length [0..?n - 1]" for j
      by (rule list_all2_nthD[OF la that])
    have "?P i (infos ! nat i)" if "0 \<le> i \<and> i < ?n" for i
    proof -
      from that have "nat i < length [0..?n - 1]" by simp
      from nth[OF this] that show ?thesis
        by (simp only: nth_upto_from_0)
    qed
    with len show ?thesis
      by (simp only: length_upto_from_0) blast
  qed
  have part1: "length infos = nat ?n
      \<and> (\<forall>i. 0 \<le> i \<and> i < ?n \<longrightarrow>
           (\<exists>socket sockets numaState.
              SocketsInNUMANodes (machineInfo p) i = socket # sockets
              \<and> indexNUMA (GetMachineState (state p)) i = Some numaState
              \<and> numaID (infos ! nat i) = i
              \<and> socketID (infos ! nat i) = socket
              \<and> (\<forall>k v. v \<in> set (indexValues (numaInfo.labels (infos ! nat i)) k)
                    \<longleftrightarrow> (\<exists>ai. Some ai \<in> set (firstEntries (PodEntries numaState))
                              \<and> AllocationInfo.Labels ai k = Some v))
              \<and> (\<forall>k. distinct (indexValues (numaInfo.labels (infos ! nat i)) k))
              \<and> numaInfo.AntiAffinityRequiredSelectors (infos ! nat i)
                  = concat (map (entrySelectors p) (firstEntries (PodEntries numaState)))))"
    if r: "getNumaNodesAffinityInfo p = Inr infos" for infos
  proof (intro conjI allI impI)
    show "length infos = nat ?n"
      using nodes[OF r] by blast
  next
    fix i
    assume "0 \<le> i \<and> i < ?n"
    with nodes[OF r] have "?P i (infos ! nat i)" by blast
    then obtain socket sockets numaState where
      s: "SocketsInNUMANodes (machineInfo p) i = socket # sockets"
        "indexNUMA (GetMachineState (state p)) i = Some numaState" and
      info: "infos ! nat i =
          \<lparr>numaInfo.labels = fold mergeEntryLabels (firstEntries (PodEntries numaState)) Map.empty,
           socketID = socket, numaID = i,
           numaInfo.AntiAffinityRequiredSelectors =
             concat (map (entrySelectors p) (firstEntries (PodEntries numaState)))\<rparr>"
      by blast
    have empty: "indexValues Map.empty k = []" for k
      by (simp add: indexValues_def)
    show "\<exists>socket sockets numaState.
              SocketsInNUMANodes (machineInfo p) i = socket # sockets
              \<and> indexNUMA (GetMachineState (state p)) i = Some numaState
              \<and> numaID (infos ! nat i) = i
              \<and> socketID (infos ! nat i) = socket
              \<and> (\<forall>k v. v \<in> set (indexValues (numaInfo.labels (infos ! nat i)) k)
                    \<longleftrightarrow> (\<exists>ai. Some ai \<in> set (firstEntries (PodEntries numaState))
                              \<and> AllocationInfo.Labels ai k = Some v))
              \<and> (\<forall>k. distinct (indexValues (numaInfo.labels (infos ! nat i)) k))
              \<and> numaInfo.AntiAffinityRequiredSelectors (infos ! nat i)
                  = concat (map (entrySelectors p) (firstEntries (PodEntries numaState)))"
      using s
      by (intro exI[of _ socket] exI[of _ sockets] exI[of _ numaState])
         (simp add: info indexValues_fold_mergeEntryLabels distinct_fold_mergeEntryLabels empty)
  qed
  have is_error: "\<exists>e. getNumaNodesAffinityInfo p = Inl e"
    if "\<And>infos. getNumaNodesAffinityInfo p = Inr infos \<Longrightarrow> False"
    using that by (cases "getNumaNodesAffinityInfo p") auto
  have part2: "\<exists>e. getNumaNodesAffinityInfo p = Inl e"
    if "\<exists>i. 0 \<le> i \<and> i < ?n \<and> SocketsInNUMANodes (machineInfo p) i = []"
  proof (rule is_error)
    fix infos
    assume "getNumaNodesAffinityInfo p = Inr infos"
    from nodes[OF this] that show False by fastforce
  qed
  have part3: "\<exists>e. getNumaNodesAffinityInfo p = Inl e"
    if "\<exists>i numaState ai err. 0 \<le> i \<and> i < ?n
            \<and> indexNUMA (GetMachineState (state p)) i = Some numaState
            \<and> Some ai \<in> set (firstEntries (PodEntries numaState))
            \<and> indexString (AllocationInfo.Annotations ai)
                 (PodAnnotationMicroTopologyInterPodAntiAffinity (apiConsts p)) \<noteq> []
            \<and> UnmarshalAffinity (collaborators p) (AllocationInfo.Annotations ai) = Inl err"
  proof (rule is_error)
    fix infos
    assume r: "getNumaNodesAffinityInfo p = Inr infos"
    from that obtain i numaState ai err where i: "0 \<le> i \<and> i < ?n"
      and n: "indexNUMA (GetMachineState (state p)) i = Some numaState"
      and ai: "Some ai \<in> set (firstEntries (PodEntries numaState))"
      and bad: "indexString (AllocationInfo.Annotations ai)
                 (PodAnnotationMicroTopologyInterPodAntiAffinity (apiConsts p)) \<noteq> []"
        "UnmarshalAffinity (collaborators p) (AllocationInfo.Annotations ai) = Inl err"
      by blast
    from nodes[OF r] i have "?P i (infos ! nat i)" by blast
    with n have "list_all (entryReadable p) (firstEntries (PodEntries numaState))"
      by auto
    with ai have "entryReadable p (Some ai)"
      by (simp add: list_all_iff)
    with bad show False
      by (simp add: entryReadable_def)
  qed
  have part4: "e = Panic \<or> e = UnmarshalAffinityFailed
         \<or> (\<exists>i. 0 \<le> i \<and> i < ?n
                \<and> e = SocketNotFound i \<and> SocketsInNUMANodes (machineInfo p) i = [])"
    if "getNumaNodesAffinityInfo p = Inl e" for e
    using getNumaNodesAffinityInfo_loop_Inl[of p "[0..?n - 1]" "[]" e] that
    unfolding getNumaNodesAffinityInfo_def mem_upto_from_0 Bex_def
    by blast
  have returned: "\<exists>e. getNumaNodesAffinityInfo p = Inl e
                \<and> (e = UnmarshalAffinityFailed
                     \<or> (\<exists>j. 0 \<le> j \<and> j < ?n
                            \<and> e = SocketNotFound j
                            \<and> SocketsInNUMANodes (machineInfo p) j = []))"
    if safe: "visitsNoNil p" and failed: "\<exists>e. getNumaNodesAffinityInfo p = Inl e"
  proof -
    from failed obtain e where e: "getNumaNodesAffinityInfo p = Inl e" ..
    with getNumaNodesAffinityInfo_no_panic[OF safe] have "e \<noteq> Panic" by auto
    with part4[OF e] have "e = UnmarshalAffinityFailed
                     \<or> (\<exists>j. 0 \<le> j \<and> j < ?n
                            \<and> e = SocketNotFound j
                            \<and> SocketsInNUMANodes (machineInfo p) j = [])"
      by simp
    with e show ?thesis by (intro exI[of _ e] conjI)
  qed
  have c1: ?C1 by (intro allI impI part1)
  have c2: ?C2
  proof (rule impI)
    assume a: "visitsNoNil p
        \<and> (\<exists>i. 0 \<le> i \<and> i < ?n \<and> SocketsInNUMANodes (machineInfo p) i = [])"
    show "\<exists>e. getNumaNodesAffinityInfo p = Inl e
                \<and> (e = UnmarshalAffinityFailed
                     \<or> (\<exists>j. 0 \<le> j \<and> j < ?n
                            \<and> e = SocketNotFound j
                            \<and> SocketsInNUMANodes (machineInfo p) j = []))"
      by (rule returned[OF a[THEN conjunct1] part2[OF a[THEN conjunct2]]])
  qed
  have c3: ?C3
  proof (rule impI)
    assume a: "visitsNoNil p
        \<and> (\<exists>i numaState ai err. 0 \<le> i \<and> i < ?n
               \<and> indexNUMA (GetMachineState (state p)) i = Some numaState
               \<and> Some ai \<in> set (firstEntries (PodEntries numaState))
               \<and> indexString (AllocationInfo.Annotations ai)
                    (PodAnnotationMicroTopologyInterPodAntiAffinity (apiConsts p)) \<noteq> []
               \<and> UnmarshalAffinity (collaborators p) (AllocationInfo.Annotations ai) = Inl err)"
    show "\<exists>e. getNumaNodesAffinityInfo p = Inl e
                \<and> (e = UnmarshalAffinityFailed
                     \<or> (\<exists>j. 0 \<le> j \<and> j < ?n
                            \<and> e = SocketNotFound j
                            \<and> SocketsInNUMANodes (machineInfo p) j = []))"
      by (rule returned[OF a[THEN conjunct1] part3[OF a[THEN conjunct2]]])
  qed
  have c4: ?C4 by (intro allI impI part4)
  have c5: ?C5 by (intro impI getNumaNodesAffinityInfo_no_panic)
  from c1 c2 c3 c4 c5 show ?thesis by (intro conjI)
qed

theorem collector_reads_first_entry_of_each_pod_witness:
  "(\<exists>infos. getNumaNodesAffinityInfo examplePolicy = Inr infos
      \<and> length infos = nat (NumNUMANodes (machineInfo examplePolicy))
      \<and> NumNUMANodes (machineInfo examplePolicy) = 4
      \<and> map (\<lambda>info. indexValues (numaInfo.labels info) ''app'') infos = [[], [''db'', ''batch''], [], []]
      \<and> map numaInfo.AntiAffinityRequiredSelectors infos
           = [[], [\<lparr>MatchLabels = [(''app'', ''web'')], Zone = ''numa''\<rparr>], [], []])
   \<and> firstEntries (PodEntries exampleNode1) = [Some exampleMain, Some exampleBatch]
   \<and> (0::int) \<le> 4 \<and> 4 < NumNUMANodes (machineInfo fiveNodePolicy)
   \<and> SocketsInNUMANodes (machineInfo fiveNodePolicy) 4 = []
   \<and> visitsNoNil fiveNodePolicy
   \<and> getNumaNodesAffinityInfo fiveNodePolicy = Inl (SocketNotFound 4)
   \<and> (\<exists>e. getNumaNodesAffinityInfo fiveNodePolicy = Inl e
         \<and> (e = UnmarshalAffinityFailed
              \<or> (\<exists>j. 0 \<le> j \<and> j < NumNUMANodes (machineInfo fiveNodePolicy)
                     \<and> e = SocketNotFound j
                     \<and> SocketsInNUMANodes (machineInfo fiveNodePolicy) j = [])))
   \<and> visitsNoNil unparsedPolicy
   \<and> indexNUMA (GetMachineState (state unparsedPolicy)) 0
       = Some \<lparr>TotalCPUSet = {0, 1, 2, 3}, AllocatedCPUSet = {1},
                PodEntries = [(''pod-s'', [(''sidecar'', Some exampleSidecar)])]\<rparr>
   \<and> UnmarshalAffinity (collaborators unparsedPolicy) (AllocationInfo.Annotations exampleSidecar)
       = Inl (External ''unmarshal'')
   \<and> getNumaNodesAffinityInfo unparsedPolicy = Inl UnmarshalAffinityFailed
   \<and> (\<exists>e. getNumaNodesAffinityInfo unparsedPolicy = Inl e
         \<and> (e = UnmarshalAffinityFailed
              \<or> (\<exists>j. 0 \<le> j \<and> j < NumNUMANodes (machineInfo unparsedPolicy)
                     \<and> e = SocketNotFound j
                     \<and> SocketsInNUMANodes (machineInfo unparsedPolicy) j = [])))
   \<and> getNumaNodesAffinityInfo unparsedPolicy \<noteq> Inl Panic"
proof -
  from example_getNumaNodesAffinityInfo obtain infos where
    r: "getNumaNodesAffinityInfo examplePolicy = Inr infos" and
    v: "map (\<lambda>info. indexValues (numaInfo.labels info) ''app'') infos = [[], [''db'', ''batch''], [], []]"
       "map numaInfo.AntiAffinityRequiredSelectors infos
           = [[], [\<lparr>MatchLabels = [(''app'', ''web'')], Zone = ''numa''\<rparr>], [], []]"
    by (cases "getNumaNodesAffinityInfo examplePolicy") simp_all
  note inst = collector_reads_first_entry_of_each_pod[of examplePolicy]
  note inst5 = collector_reads_first_entry_of_each_pod[of fiveNodePolicy]
  have len: "length infos = nat (NumNUMANodes (machineInfo examplePolicy))"
    by (rule inst[THEN conjunct1, THEN spec, of infos, THEN mp, THEN conjunct1]) (rule r)
  have n: "NumNUMANodes (machineInfo examplePolicy) = 4"
    by (simp add: example_defs)
  have f: "firstEntries (PodEntries exampleNode1) = [Some exampleMain, Some exampleBatch]"
    by (simp add: firstEntries_def exampleNode1_def)
  have five: "(0::int) \<le> 4 \<and> 4 < NumNUMANodes (machineInfo fiveNodePolicy)
      \<and> SocketsInNUMANodes (machineInfo fiveNodePolicy) 4 = []"
    by (simp add: example_defs)
  have err: "\<exists>e. getNumaNodesAffinityInfo fiveNodePolicy = Inl e
         \<and> (e = UnmarshalAffinityFailed
              \<or> (\<exists>j. 0 \<le> j \<and> j < NumNUMANodes (machineInfo fiveNodePolicy)
                     \<and> e = SocketNotFound j
                     \<and> SocketsInNUMANodes (machineInfo fiveNodePolicy) j = []))"
    by (rule inst5[THEN conjunct2, THEN conjunct1, THEN mp])
       (rule conjI[OF fiveNode_visitsNoNil], rule exI[of _ 4], rule five)
  note instU = collector_reads_first_entry_of_each_pod[of unparsedPolicy]
  let ?node0 = "\<lparr>TotalCPUSet = {0, 1, 2, 3}, AllocatedCPUSet = {1},
                PodEntries = [(''pod-s'', [(''sidecar'', Some exampleSidecar)])]\<rparr>"
  have node0: "indexNUMA (GetMachineState (state unparsedPolicy)) 0 = Some ?node0"
    by (simp add: indexNUMA_def unparsedPolicy_def unparsedMachineState_def)
  have parse: "UnmarshalAffinity (collaborators unparsedPolicy) (AllocationInfo.Annotations exampleSidecar)
       = Inl (External ''unmarshal'')"
    by (simp add: example_defs)
  have bad: "\<exists>i numaState ai err. 0 \<le> i \<and> i < NumNUMANodes (machineInfo unparsedPolicy)
               \<and> indexNUMA (GetMachineState (state unparsedPolicy)) i = Some numaState
               \<and> Some ai \<in> set (firstEntries (PodEntries numaState))
               \<and> indexString (AllocationInfo.Annotations ai)
                    (PodAnnotationMicroTopologyInterPodAntiAffinity (apiConsts unparsedPolicy)) \<noteq> []
               \<and> UnmarshalAffinity (collaborators unparsedPolicy) (AllocationInfo.Annotations ai) = Inl err"
  proof (intro exI[of _ 0] exI[of _ ?node0] exI[of _ exampleSidecar]
           exI[of _ "External ''unmarshal''"] conjI node0 parse)
    show "Some exampleSidecar \<in> set (firstEntries (PodEntries ?node0))"
      by (simp add: firstEntries_def)
    show "indexString (AllocationInfo.Annotations exampleSidecar)
            (PodAnnotationMicroTopologyInterPodAntiAffinity (apiConsts unparsedPolicy)) \<noteq> []"
      by (simp add: example_defs indexString_def)
  qed (simp_all add: example_defs)
  have errU: "\<exists>e. getNumaNodesAffinityInfo unparsedPolicy = Inl e
         \<and> (e = UnmarshalAffinityFailed
              \<or> (\<exists>j. 0 \<le> j \<and> j < NumNUMANodes (machineInfo unparsedPolicy)
                     \<and> e = SocketNotFound j
                     \<and> SocketsInNUMANodes (machineInfo unparsedPolicy) j = []))"
    by (rule instU[THEN conjunct2, THEN conjunct2, THEN conjunct1, THEN mp])
       (rule conjI[OF unparsed_visitsNoNil bad])
  have noPanic: "getNumaNodesAffinityInfo unparsedPolicy \<noteq> Inl Panic"
    by (rule instU[THEN conjunct2, THEN conjunct2, THEN conjunct2, THEN conjunct2, THEN mp])
       (rule unparsed_visitsNoNil)
  have first: "\<exists>infos. getNumaNodesAffinityInfo examplePolicy = Inr infos
      \<and> length infos = nat (NumNUMANodes (machineInfo examplePolicy))
      \<and> NumNUMANodes (machineInfo examplePolicy) = 4
      \<and> map (\<lambda>info. indexValues (numaInfo.labels info) ''app'') infos = [[], [''db'', ''batch''], [], []]
      \<and> map numaInfo.AntiAffinityRequiredSelectors infos
           = [[], [\<lparr>MatchLabels = [(''app'', ''web'')], Zone = ''numa''\<rparr>], [], []]"
    by (intro exI[of _ infos] conjI r len n v)
  from first f five[THEN conjunct1] five[THEN conjunct2, THEN conjunct1]
    five[THEN conjunct2, THEN conjunct2] fiveNode_visitsNoNil
    fiveNode_getNumaNodesAffinityInfo err
    unparsed_visitsNoNil node0 parse unparsed_getNumaNodesAffinityInfo errU noPanic
  show ?thesis by (intro conjI)
qed

text \<open>
  C8 as the spec states it fails on the example machine. The sidecar entry of the first
  pod on node 1 carries the label \<open>tier\<close> and annotations that do not parse; the entry
  of the second pod is the first of its pod and its affinity annotation does not parse.
  Yet the call returns no error, and the labels of node 1 hold no value for \<open>tier\<close>.
\<close>

theorem collector_merges_all_entries_counterexample:
  "indexNUMA (GetMachineState (state examplePolicy)) 1 = Some exampleNode1
   \<and> Some exampleSidecar \<in> set (allEntries (PodEntries exampleNode1))
   \<and> AllocationInfo.Labels exampleSidecar ''tier'' = Some ''cache''
   \<and> indexString (AllocationInfo.Annotations exampleSidecar)
        (PodAnnotationMicroTopologyInterPodAntiAffinity (apiConsts examplePolicy)) \<noteq> []
   \<and> UnmarshalAffinity (collaborators examplePolicy) (AllocationInfo.Annotations exampleSidecar)
       = Inl (External ''unmarshal'')
   \<and> Some exampleBatch \<in> set (firstEntries (PodEntries exampleNode1))
   \<and> UnmarshalAffinity (collaborators examplePolicy) (AllocationInfo.Annotations exampleBatch)
       = Inl (External ''unmarshal'')
   \<and> (case getNumaNodesAffinityInfo examplePolicy of
         Inl e \<Rightarrow> False
       | Inr infos \<Rightarrow>
           map numaID infos = [0, 1, 2, 3]
           \<and> map (\<lambda>info. indexValues (numaInfo.labels info) ''tier'') infos = [[], [], [], []])"
proof -
  have "indexNUMA (GetMachineState (state examplePolicy)) 1 = Some exampleNode1"
    by (simp add: indexNUMA_def examplePolicy_def exampleMachineState_def)
  moreover have "Some exampleSidecar \<in> set (allEntries (PodEntries exampleNode1))"
    by (simp add: allEntries_def exampleNode1_def)
  moreover have "AllocationInfo.Labels exampleSidecar ''tier'' = Some ''cache''"
    by (simp add: exampleSidecar_def)
  moreover have "indexString (AllocationInfo.Annotations exampleSidecar)
        (PodAnnotationMicroTopologyInterPodAntiAffinity (apiConsts examplePolicy)) \<noteq> []"
    by (simp add: example_defs indexString_def)
  moreover have "UnmarshalAffinity (collaborators examplePolicy) (AllocationInfo.Annotations exampleSidecar)
       = Inl (External ''unmarshal'')"
    by (simp add: example_defs)
  moreover have "Some exampleBatch \<in> set (firstEntries (PodEntries exampleNode1))"
    by (simp add: firstEntries_def exampleNode1_def)
  moreover have "UnmarshalAffinity (collaborators examplePolicy) (AllocationInfo.Annotations exampleBatch)
       = Inl (External ''unmarshal'')"
    by (simp add: example_defs)
  moreover have "case getNumaNodesAffinityInfo examplePolicy of
         Inl e \<Rightarrow> False
       | Inr infos \<Rightarrow>
           map numaID infos = [0, 1, 2, 3]
           \<and> map (\<lambda>info. indexValues (numaInfo.labels info) ''tier'') infos = [[], [], [], []]"
    using example_getNumaNodesAffinityInfo
    by (cases "getNumaNodesAffinityInfo examplePolicy") simp_all
  ultimately show ?thesis by (intro conjI)
qed

end
